theory Spec2Isabelle
  imports Main "HOL-Library.AList" "HOL-Library.Multiset" "HOL-Library.Sublist" "HOL-Library.Char_ord" "HOL-Library.List_Lexorder"
begin

section \<open>Python values\<close>

text \<open>
  A Python \<open>str\<close> is modelled as a \<open>string\<close>: a list of characters, each one a code point
  below 256 (the Latin-1 range). Comparison of strings is Python's: lexicographic on the
  code points. Python's unbounded \<open>int\<close> is \<open>int\<close>.
\<close>

datatype error =
    ValueError string
  | IndexError string
  | TypeError string
  | EnvError string

text \<open>\<open>str(e)\<close> of an exception: its message.\<close>

fun error_text :: "error \<Rightarrow> string" where
  "error_text (ValueError m) = m"
| "error_text (IndexError m) = m"
| "error_text (TypeError m) = m"
| "error_text (EnvError m) = m"

text \<open>The decimal digit of a number below ten.\<close>

definition digit_char :: "nat \<Rightarrow> char" where
  "digit_char d = ''0123456789'' ! d"

fun str_nat :: "nat \<Rightarrow> string" where
  "str_nat n = (if n < 10 then [digit_char n] else str_nat (n div 10) @ [digit_char (n mod 10)])"

declare str_nat.simps [simp del]

text \<open>\<open>str(i)\<close>, also what \<open>f"{i}"\<close> renders.\<close>

definition str_int :: "int \<Rightarrow> string" where
  "str_int i = (if i < 0 then CHR ''-'' # str_nat (nat (- i)) else str_nat (nat i))"

text \<open>\<open>sep.join(parts)\<close>\<close>

fun join :: "string \<Rightarrow> string list \<Rightarrow> string" where
  "join sep [] = []"
| "join sep [x] = x"
| "join sep (x # y # ys) = x @ sep @ join sep (y # ys)"

definition is_upper :: "char \<Rightarrow> bool" where
  "is_upper c = (CHR ''A'' \<le> c \<and> c \<le> CHR ''Z'')"

definition is_ascii_digit :: "char \<Rightarrow> bool" where
  "is_ascii_digit c = (CHR ''0'' \<le> c \<and> c \<le> CHR ''9'')"

text \<open>
  \<open>re.match(r"^P$", s)\<close> for a pattern \<open>P\<close> that consumes exactly \<open>n\<close> characters, each
  accepted by the predicate at its position: \<open>$\<close> matches at the end of the string and also
  just before a newline that ends the string.
\<close>

definition match_anchored :: "(char \<Rightarrow> bool) list \<Rightarrow> string \<Rightarrow> bool" where
  "match_anchored ps s =
     (length ps \<le> length s \<and> list_all2 (\<lambda>p c. p c) ps (take (length ps) s)
      \<and> (drop (length ps) s = [] \<or> drop (length ps) s = [CHR 0x0A]))"

text \<open>\<open>^[A-Z]{3}$\<close>\<close>

definition match_airport :: "string \<Rightarrow> bool" where
  "match_airport s = match_anchored [is_upper, is_upper, is_upper] s"

text \<open>\<open>^\d{4}-\d{2}-\d{2}$\<close> (below code point 256 the class \<open>\d\<close> is the ASCII digits)\<close>

definition match_date :: "string \<Rightarrow> bool" where
  "match_date s = match_anchored
     [is_ascii_digit, is_ascii_digit, is_ascii_digit, is_ascii_digit, (\<lambda>c. c = CHR ''-''),
      is_ascii_digit, is_ascii_digit, (\<lambda>c. c = CHR ''-''), is_ascii_digit, is_ascii_digit] s"

text \<open>\<open>^[A-Z0-9]{2}$\<close>\<close>

definition match_airline :: "string \<Rightarrow> bool" where
  "match_airline s = match_anchored
     [(\<lambda>c. is_upper c \<or> is_ascii_digit c), (\<lambda>c. is_upper c \<or> is_ascii_digit c)] s"


section \<open>enums.py\<close>

datatype PlaneType = ECONOMY | PREMIUM | BUSINESS | FIRST

fun PlaneType_value :: "PlaneType \<Rightarrow> string" where
  "PlaneType_value ECONOMY = ''economy''"
| "PlaneType_value PREMIUM = ''premium''"
| "PlaneType_value BUSINESS = ''business''"
| "PlaneType_value FIRST = ''first''"

datatype SortOption =
    BEST_FLIGHT | QUICKEST | SLOWEST | CHEAPEST | MOST_EXPENSIVE
  | EARLIEST_TAKEOFF_A | LATEST_TAKEOFF_A | EARLIEST_LANDING_B | LATEST_LANDING_B
  | EARLIEST_TAKEOFF_B | LATEST_TAKEOFF_B | EARLIEST_LANDING_A | LATEST_LANDING_A

fun SortOption_value :: "SortOption \<Rightarrow> string" where
  "SortOption_value BEST_FLIGHT = ''bestflight_a''"
| "SortOption_value QUICKEST = ''duration_a''"
| "SortOption_value SLOWEST = ''duration_b''"
| "SortOption_value CHEAPEST = ''price_a''"
| "SortOption_value MOST_EXPENSIVE = ''price_b''"
| "SortOption_value EARLIEST_TAKEOFF_A = ''depart_a''"
| "SortOption_value LATEST_TAKEOFF_A = ''depart_b''"
| "SortOption_value EARLIEST_LANDING_B = ''arrive_a''"
| "SortOption_value LATEST_LANDING_B = ''arrive_b''"
| "SortOption_value EARLIEST_TAKEOFF_B = ''departReturn_a''"
| "SortOption_value LATEST_TAKEOFF_B = ''departReturn_b''"
| "SortOption_value EARLIEST_LANDING_A = ''arriveReturn_a''"
| "SortOption_value LATEST_LANDING_A = ''arriveReturn_b''"

datatype Alliance = VALUE_ALLIANCE | ONE_WORLD | SKY_TEAM | STAR_ALLIANCE

fun Alliance_value :: "Alliance \<Rightarrow> string" where
  "Alliance_value VALUE_ALLIANCE = ''VALUE_ALLIANCE''"
| "Alliance_value ONE_WORLD = ''ONE_WORLD''"
| "Alliance_value SKY_TEAM = ''SKY_TEAM''"
| "Alliance_value STAR_ALLIANCE = ''STAR_ALLIANCE''"

datatype ChildType = CHILD | TODDLER_SEAT | INFANT_LAP

fun ChildType_value :: "ChildType \<Rightarrow> string" where
  "ChildType_value CHILD = ''11''"
| "ChildType_value TODDLER_SEAT = ''1S''"
| "ChildType_value INFANT_LAP = ''1L''"


section \<open>models.py\<close>

record FlightPassengers =
  adults :: int
  students :: int
  children :: "ChildType list"

text \<open>
  The constructor with \<open>__post_init__\<close>: a missing (or empty) list of children becomes \<open>[]\<close>,
  then the two checks.
\<close>

definition FlightPassengers_init ::
  "int \<Rightarrow> int \<Rightarrow> ChildType list option \<Rightarrow> error + FlightPassengers" where
  "FlightPassengers_init a s cs =
     (let cs' = (case cs of None \<Rightarrow> [] | Some l \<Rightarrow> l) in
      if a < 0 \<or> s < 0 then Inl (ValueError ''Adults and students cannot be negative'')
      else if a = 0 \<and> s = 0 \<and> cs' = [] then Inl (ValueError ''At least one passenger is required'')
      else Inr \<lparr>adults = a, students = s, children = cs'\<rparr>)"

text \<open>
  \<open>child_counts\<close>: a dict, which keeps its keys in the order of their first insertion; an
  association list updated in place by \<open>AList.update\<close>.
  \<open>child_counts[child] = child_counts.get(child, 0) + 1\<close>
\<close>

definition count_child :: "(ChildType \<times> int) list \<Rightarrow> ChildType \<Rightarrow> (ChildType \<times> int) list" where
  "count_child d child =
     AList.update child ((case map_of d child of None \<Rightarrow> 0 | Some n \<Rightarrow> n) + 1) d"

definition child_counts :: "ChildType list \<Rightarrow> (ChildType \<times> int) list" where
  "child_counts cs = foldl count_child [] cs"

definition child_token :: "ChildType \<times> int \<Rightarrow> string" where
  "child_token x = (if snd x > 1 then str_int (snd x) @ ChildType_value (fst x)
                    else ChildType_value (fst x))"

text \<open>\<open>sorted(child_counts.items(), key=lambda x: x[0].value)\<close> is a stable sort, as \<open>sort_key\<close>.\<close>

definition child_str :: "ChildType list \<Rightarrow> string" where
  "child_str cs =
     join ''-'' (map child_token (sort_key (\<lambda>x. ChildType_value (fst x)) (child_counts cs)))"

definition passengers_to_url_string :: "FlightPassengers \<Rightarrow> string" where
  "passengers_to_url_string p =
     join ''-''
       ((if adults p > 0 then [str_int (adults p) @ ''adults''] else []) @
        (if students p > 0 then [str_int (students p) @ ''students''] else []) @
        (if children p \<noteq> [] then [''children-'' @ child_str (children p)] else []))"

text \<open>
  A \<open>Set[str]\<close> field is modelled by the list of its elements in the set's iteration order
  (the order in which \<open>','.join\<close> visits them); \<open>None\<close> is the field left unset.
\<close>

record FlightFilters =
  carry_on_free :: "int option"
  checked_bags_free :: "int option"
  stops :: "int option"
  max_price :: "int option"
  alliance :: "Alliance option"
  include_airlines :: "string list option"
  exclude_airlines :: "string list option"
  wifi_only :: bool

text \<open>\<open>FlightFilters()\<close>: every field at its default.\<close>

definition FlightFilters_default :: FlightFilters where
  "FlightFilters_default =
     \<lparr>carry_on_free = None, checked_bags_free = None, stops = None, max_price = None,
      alliance = None, include_airlines = None, exclude_airlines = None, wifi_only = False\<rparr>"

text \<open>
  \<open>FlightFilters.to_url_string\<close>, one step for each \<open>if\<close> of the source in its order: a
  step either raises or appends its token to \<open>parts\<close>.
\<close>

definition int_part ::
  "int option \<Rightarrow> (int \<Rightarrow> bool) \<Rightarrow> string \<Rightarrow> string \<Rightarrow> string list \<Rightarrow> error + string list" where
  "int_part field bad msg key parts =
     (case field of
        None \<Rightarrow> Inr parts
      | Some v \<Rightarrow> if bad v then Inl (ValueError msg) else Inr (parts @ [key @ str_int v]))"

definition airlines_part ::
  "string list option \<Rightarrow> string \<Rightarrow> string \<Rightarrow> string list \<Rightarrow> error + string list" where
  "airlines_part field msg key parts =
     (case field of
        None \<Rightarrow> Inr parts
      | Some codes \<Rightarrow>
          if codes = [] then Inr parts
          else if \<not> list_all match_airline codes then Inl (ValueError msg)
          else Inr (parts @ [key @ join '','' codes]))"

definition filters_to_url_string :: "FlightFilters \<Rightarrow> error + string" where
  "filters_to_url_string f =
     (case int_part (carry_on_free f) (\<lambda>v. v < 0) ''Carry-on bags cannot be negative'' ''cfc='' [] of
        Inl e \<Rightarrow> Inl e
      | Inr p1 \<Rightarrow>
     (case int_part (checked_bags_free f) (\<lambda>v. v < 0) ''Checked bags cannot be negative'' ''bfc='' p1 of
        Inl e \<Rightarrow> Inl e
      | Inr p2 \<Rightarrow>
     (case int_part (stops f) (\<lambda>v. v < 0) ''Stops cannot be negative'' ''stops='' p2 of
        Inl e \<Rightarrow> Inl e
      | Inr p3 \<Rightarrow>
     (case int_part (max_price f) (\<lambda>v. v \<le> 0) ''Max price must be positive'' ''price=-'' p3 of
        Inl e \<Rightarrow> Inl e
      | Inr p4 \<Rightarrow>
     (let p5 = (case alliance f of None \<Rightarrow> p4 | Some a \<Rightarrow> p4 @ [''alliance='' @ Alliance_value a]) in
     (case airlines_part (include_airlines f) ''Invalid airline codes in include_airlines'' ''airlines='' p5 of
        Inl e \<Rightarrow> Inl e
      | Inr p6 \<Rightarrow>
     (case airlines_part (exclude_airlines f) ''Invalid airline codes in exclude_airlines'' ''airlines=-'' p6 of
        Inl e \<Rightarrow> Inl e
      | Inr p7 \<Rightarrow>
     (let p8 = (if wifi_only f then p7 @ [''wifi=wifi''] else p7) in
      Inr (join '';'' p8)))))))))"


text \<open>
  \<open>FlightPassengers.to_dict\<close> and \<open>FlightFilters.to_dict\<close>, the dicts that a report echoes;
  the field \<open>pd_x\<close> or \<open>fd_x\<close> is the key \<open>x\<close>. A child type and the alliance are replaced by
  their values; a set of airline codes becomes the list of its elements, and \<open>None\<close> when it
  is empty.
\<close>

record PassengersDict =
  pd_adults :: int
  pd_students :: int
  pd_children :: "string list"

definition passengers_to_dict :: "FlightPassengers \<Rightarrow> PassengersDict" where
  "passengers_to_dict p =
     \<lparr>pd_adults = adults p, pd_students = students p,
      pd_children = map ChildType_value (children p)\<rparr>"

record FiltersDict =
  fd_carry_on_free :: "int option"
  fd_checked_bags_free :: "int option"
  fd_stops :: "int option"
  fd_max_price :: "int option"
  fd_alliance :: "string option"
  fd_include_airlines :: "string list option"
  fd_exclude_airlines :: "string list option"
  fd_wifi_only :: bool

definition airlines_to_list :: "string list option \<Rightarrow> string list option" where
  "airlines_to_list field =
     (case field of None \<Rightarrow> None | Some codes \<Rightarrow> if codes = [] then None else Some codes)"

definition filters_to_dict :: "FlightFilters \<Rightarrow> FiltersDict" where
  "filters_to_dict f =
     \<lparr>fd_carry_on_free = carry_on_free f,
      fd_checked_bags_free = checked_bags_free f,
      fd_stops = stops f,
      fd_max_price = max_price f,
      fd_alliance = map_option Alliance_value (alliance f),
      fd_include_airlines = airlines_to_list (include_airlines f),
      fd_exclude_airlines = airlines_to_list (exclude_airlines f),
      fd_wifi_only = wifi_only f\<rparr>"


section \<open>utils.py: the URL builder\<close>

text \<open>
  \<open>generate_search_url\<close>. The module \<open>config\<close> that defines \<open>BASE_SEARCH_URL\<close> is not part
  of the sources, so the constant is the first parameter. An optional string is truthy when
  it is given and not empty.
\<close>

definition truthy :: "string option \<Rightarrow> bool" where
  "truthy s = (case s of None \<Rightarrow> False | Some t \<Rightarrow> t \<noteq> [])"

definition generate_search_url ::
  "string \<Rightarrow> string \<Rightarrow> string \<Rightarrow> string \<Rightarrow> string option \<Rightarrow> FlightPassengers \<Rightarrow> PlaneType
   \<Rightarrow> SortOption \<Rightarrow> FlightFilters option \<Rightarrow> error + string" where
  "generate_search_url BASE_SEARCH_URL departure_airport arrival_airport departure_date
      return_date passengers plane_type sort_option filters =
     (if \<not> match_airport departure_airport
        then Inl (ValueError (''Invalid departure airport code: '' @ departure_airport))
      else if \<not> match_airport arrival_airport
        then Inl (ValueError (''Invalid arrival airport code: '' @ arrival_airport))
      else if \<not> match_date departure_date
        then Inl (ValueError (''Invalid departure date format: '' @ departure_date))
      else if truthy return_date \<and> \<not> match_date (the return_date)
        then Inl (ValueError (''Invalid return date format: '' @ the return_date))
      else
        let path_parts =
              [departure_airport @ ''-'' @ arrival_airport, departure_date] @
              (if truthy return_date then [the return_date] else []) @
              [passengers_to_url_string passengers] @
              [PlaneType_value plane_type];
            path = join ''/'' path_parts;
            sort_part = ''sort='' @ SortOption_value sort_option
        in
        (case (case filters of None \<Rightarrow> Inr [] | Some f \<Rightarrow> filters_to_url_string f) of
           Inl e \<Rightarrow> Inl e
         | Inr fs \<Rightarrow>
             let query_parts = [sort_part] @ (if fs \<noteq> [] then [''fs='' @ fs] else []);
                 query_string = join ''&'' query_parts
             in Inr (BASE_SEARCH_URL @ ''/'' @ path @ ''?'' @ query_string)))"


section \<open>The DOM as the scraper reads it\<close>

text \<open>
  An element handle of the browser is modelled by what it answers: its \<open>inner_text()\<close>, its
  attributes, and for each selector the elements that \<open>query_selector_all\<close> returns, in
  document order. A selector that is not listed selects nothing. Reading an element does not
  change it, and a handle is truthy unless it is \<open>None\<close>.
\<close>

datatype elem =
  Elem (inner_text: string) (attributes: "(string \<times> string) list")
       (selected: "(string \<times> elem list) list")

definition query_selector_all :: "elem \<Rightarrow> string \<Rightarrow> elem list" where
  "query_selector_all e sel = (case map_of (selected e) sel of None \<Rightarrow> [] | Some es \<Rightarrow> es)"

text \<open>\<open>query_selector\<close>: the first selected element, or \<open>None\<close>.\<close>

definition query_selector :: "elem \<Rightarrow> string \<Rightarrow> elem option" where
  "query_selector e sel = (case query_selector_all e sel of [] \<Rightarrow> None | x # _ \<Rightarrow> Some x)"

definition get_attribute :: "elem \<Rightarrow> string \<Rightarrow> string option" where
  "get_attribute e a = map_of (attributes e) a"


section \<open>Python string methods\<close>

text \<open>The characters below 256 on which \<open>str.isspace()\<close> holds; \<open>str.split()\<close> splits at them.\<close>

definition py_isspace :: "char \<Rightarrow> bool" where
  "py_isspace c =
     ((CHR 0x09 \<le> c \<and> c \<le> CHR 0x0D) \<or> (CHR 0x1C \<le> c \<and> c \<le> CHR 0x20)
      \<or> c = CHR 0x85 \<or> c = CHR 0xA0)"

text \<open>\<open>s.split()\<close>: the maximal runs of characters that are not whitespace.\<close>

fun split_ws_aux :: "string \<Rightarrow> string \<Rightarrow> string list" where
  "split_ws_aux cur [] = (if cur = [] then [] else [cur])"
| "split_ws_aux cur (c # cs) =
     (if py_isspace c then (if cur = [] then split_ws_aux [] cs else cur # split_ws_aux [] cs)
      else split_ws_aux (cur @ [c]) cs)"

definition split_ws :: "string \<Rightarrow> string list" where
  "split_ws s = split_ws_aux [] s"

text \<open>\<open>s.split(", ")\<close>: the pieces between the occurrences of the separator, empty ones kept.\<close>

fun split_comma_aux :: "string \<Rightarrow> string \<Rightarrow> string list" where
  "split_comma_aux cur [] = [cur]"
| "split_comma_aux cur [c] = [cur @ [c]]"
| "split_comma_aux cur (c # d # cs) =
     (if c = CHR '','' \<and> d = CHR '' '' then cur # split_comma_aux [] cs
      else split_comma_aux (cur @ [c]) (d # cs))"

definition split_comma_space :: "string \<Rightarrow> string list" where
  "split_comma_space s = split_comma_aux [] s"

text \<open>
  \<open>s.isdigit()\<close>: \<open>s\<close> is not empty and each character is a digit; below 256 these are the
  ASCII digits and the superscripts two, three and one.
\<close>

definition is_digit_char :: "char \<Rightarrow> bool" where
  "is_digit_char c = (is_ascii_digit c \<or> c = CHR 0xB2 \<or> c = CHR 0xB3 \<or> c = CHR 0xB9)"

definition py_isdigit :: "string \<Rightarrow> bool" where
  "py_isdigit s = (s \<noteq> [] \<and> list_all is_digit_char s)"

definition digit_val :: "char \<Rightarrow> int" where
  "digit_val c = int (of_char c) - 48"

definition digits_val :: "string \<Rightarrow> int" where
  "digits_val s = foldl (\<lambda>acc c. 10 * acc + digit_val c) 0 s"

text \<open>
  \<open>int(s)\<close> as the scraper calls it, on a string for which \<open>isdigit()\<close> holds: the decimal
  value when every character is an ASCII digit; a superscript digit is not a decimal digit
  and \<open>int\<close> raises.
\<close>

definition py_int :: "string \<Rightarrow> error + int" where
  "py_int s =
     (if s \<noteq> [] \<and> list_all is_ascii_digit s then Inr (digits_val s)
      else Inl (ValueError (''invalid literal for int() with base 10: '' @ [CHR 0x27] @ s @ [CHR 0x27])))"

text \<open>
  \<open>s.lower()\<close>: below 256 the upper-case letters are A to Z and the code points 0xC0 to 0xDE
  without the multiplication sign 0xD7; the lower-case letter is 32 further (bit 5 set).
\<close>

definition lower_char :: "char \<Rightarrow> char" where
  "lower_char c =
     (if is_upper c \<or> (CHR 0xC0 \<le> c \<and> c \<le> CHR 0xDE \<and> c \<noteq> CHR 0xD7)
      then (case c of Char b0 b1 b2 b3 b4 b5 b6 b7 \<Rightarrow> Char b0 b1 b2 b3 b4 True b6 b7)
      else c)"

definition py_lower :: "string \<Rightarrow> string" where
  "py_lower s = map lower_char s"

text \<open>\<open>xs[0]\<close>\<close>

definition first_item :: "'a list \<Rightarrow> error + 'a" where
  "first_item xs = (case xs of [] \<Rightarrow> Inl (IndexError ''list index out of range'') | x # _ \<Rightarrow> Inr x)"

text \<open>
  \<open>re.search(r"(\d+h \d+m) layover", text)\<close> and its group 1. At one position the greedy
  \<open>\d+\<close> takes the whole run of digits (a shorter run would be followed by a digit, not by
  the letter); the search tries the positions from the left.
\<close>

definition layover_at :: "string \<Rightarrow> string option" where
  "layover_at s =
     (let d1 = takeWhile is_ascii_digit s; r1 = dropWhile is_ascii_digit s;
          d2 = takeWhile is_ascii_digit (drop 2 r1); r2 = dropWhile is_ascii_digit (drop 2 r1)
      in if d1 \<noteq> [] \<and> take 2 r1 = ''h '' \<and> d2 \<noteq> [] \<and> take 9 r2 = ''m layover''
         then Some (d1 @ ''h '' @ d2 @ ''m'') else None)"

fun layover_search :: "string \<Rightarrow> string option" where
  "layover_search [] = None"
| "layover_search (c # cs) =
     (case layover_at (c # cs) of Some g \<Rightarrow> Some g | None \<Rightarrow> layover_search cs)"


section \<open>utils.py: the leg parser\<close>

record AirportRef =
  code :: string
  name :: string

record StopDetail =
  airportCode :: string
  airportName :: string
  layoverDuration :: string

text \<open>
  The dict that \<open>parse_flight_leg\<close> builds. An \<open>alt\<close> attribute that is absent reads as
  \<open>None\<close>, so \<open>airlines\<close> is a list of optional strings.
\<close>

record FlightLeg =
  departureTime :: string
  departureAirport :: AirportRef
  arrivalTime :: string
  arrivalAirport :: AirportRef
  duration :: string
  airlines :: "string option list"
  stops :: int
  stopDetails :: "StopDetail list"
  nextDayArrival :: bool

text \<open>What \<open>parse_flight_leg\<close> returns: the empty dict \<open>{}\<close> or a dict with the nine keys.\<close>

datatype leg_dict = EmptyDict | LegDict FlightLeg

definition na_airport :: AirportRef where
  "na_airport = \<lparr>code = ''N/A'', name = ''N/A''\<rparr>"

text \<open>\<open>xs[i].inner_text() if len(xs) > i else "N/A"\<close>\<close>

definition text_at :: "elem list \<Rightarrow> nat \<Rightarrow> string" where
  "text_at xs i = (if length xs > i then inner_text (xs ! i) else ''N/A'')"

definition airport_of :: "elem \<Rightarrow> AirportRef" where
  "airport_of info =
     (let spans = query_selector_all info ''span'' in
      \<lparr>code = text_at spans 0, name = text_at spans 1\<rparr>)"

text \<open>The stop count (the block "Extract stops").\<close>

definition extract_stops :: "elem \<Rightarrow> error + int" where
  "extract_stops flight_leg_elem =
     (case query_selector flight_leg_elem ''.JWEO-stops-text'' of
        None \<Rightarrow> Inr 0
      | Some stops_elem \<Rightarrow>
          (case first_item (split_ws (inner_text stops_elem)) of
             Inl e \<Rightarrow> Inl e
           | Inr tok \<Rightarrow>
               if py_isdigit tok then py_int tok
               else if py_lower (inner_text stops_elem) = ''direct'' then Inr 0
               else Inr 0))"

text \<open>One pass of the loop over the stop markers: \<open>None\<close> is \<open>continue\<close>.\<close>

definition parse_stop :: "AirportRef \<Rightarrow> AirportRef \<Rightarrow> elem \<Rightarrow> StopDetail option" where
  "parse_stop departure_airport arrival_airport stop_elem =
     (case query_selector stop_elem ''span'' of
        None \<Rightarrow> None
      | Some code_elem \<Rightarrow>
          let airport_code = take 3 (inner_text code_elem) in
          if \<not> match_airport airport_code then None
          else if airport_code \<in> set [code departure_airport, code arrival_airport] then None
          else (case query_selector stop_elem ''.hEI8'' of
                  None \<Rightarrow> None
                | Some hEI8_elem \<Rightarrow>
                    let stop_text = inner_text hEI8_elem;
                        airport_name = (case query_selector hEI8_elem ''.AFFP'' of
                                          None \<Rightarrow> ''N/A'' | Some n \<Rightarrow> inner_text n);
                        layover_duration = (case layover_search stop_text of
                                              None \<Rightarrow> ''N/A'' | Some g \<Rightarrow> g)
                    in Some \<lparr>airportCode = airport_code, airportName = airport_name,
                             layoverDuration = layover_duration\<rparr>))"

text \<open>
  \<open>[d for d in stop_details if not (d["airportCode"] in seen or seen.add(d["airportCode"]))]\<close>
\<close>

fun dedup_stops :: "string set \<Rightarrow> StopDetail list \<Rightarrow> StopDetail list" where
  "dedup_stops seen [] = []"
| "dedup_stops seen (d # ds) =
     (if airportCode d \<in> seen then dedup_stops seen ds
      else d # dedup_stops (insert (airportCode d) seen) ds)"

definition extract_stop_details :: "elem \<Rightarrow> AirportRef \<Rightarrow> AirportRef \<Rightarrow> int \<Rightarrow> StopDetail list" where
  "extract_stop_details flight_leg_elem departure_airport arrival_airport n =
     (if n > 0 then
        dedup_stops {}
          (List.map_filter (parse_stop departure_airport arrival_airport)
             (query_selector_all flight_leg_elem ''.JWEO .c_cgF-mod-variant-full-airport > span''))
      else [])"

definition parse_flight_leg :: "elem option \<Rightarrow> error + leg_dict" where
  "parse_flight_leg flight_leg_elem_opt =
     (case flight_leg_elem_opt of
        None \<Rightarrow> Inr EmptyDict
      | Some flight_leg_elem \<Rightarrow>
          let times = query_selector_all flight_leg_elem ''.VY2U .vmXl span'';
              departure_time = text_at times 0;
              arrival_time = text_at times 2
          in
          (case query_selector flight_leg_elem ''.EFvI'' of
             None \<Rightarrow>
               Inr (LegDict \<lparr>departureTime = departure_time, departureAirport = na_airport,
                              arrivalTime = arrival_time, arrivalAirport = na_airport,
                              duration = ''N/A'', airlines = [Some ''N/A''], stops = 0,
                              stopDetails = [], nextDayArrival = False\<rparr>)
           | Some efvi_elem \<Rightarrow>
               let airport_info_elems = query_selector_all efvi_elem ''.jLhY-airport-info'';
                   departure_airport =
                     (if length airport_info_elems \<noteq> 2 then na_airport
                      else airport_of (airport_info_elems ! 0));
                   arrival_airport =
                     (if length airport_info_elems \<noteq> 2 then na_airport
                      else airport_of (airport_info_elems ! 1));
                   duration_v = (case query_selector flight_leg_elem ''.xdW8 .vmXl'' of
                                   None \<Rightarrow> ''N/A'' | Some d \<Rightarrow> inner_text d);
                   alts = map (\<lambda>img. get_attribute img ''alt'')
                            (query_selector_all flight_leg_elem ''.c5iUd-leg-carrier img'');
                   airlines_v = (if alts \<noteq> [] then alts else [Some ''N/A''])
               in
               (case extract_stops flight_leg_elem of
                  Inl e \<Rightarrow> Inl e
                | Inr n \<Rightarrow>
                    let stop_details =
                          extract_stop_details flight_leg_elem departure_airport arrival_airport n;
                        next_day_arrival =
                          (query_selector flight_leg_elem ''.VY2U-adendum'' \<noteq> None)
                    in Inr (LegDict \<lparr>departureTime = departure_time,
                                      departureAirport = departure_airport,
                                      arrivalTime = arrival_time,
                                      arrivalAirport = arrival_airport,
                                      duration = duration_v, airlines = airlines_v, stops = n,
                                      stopDetails = stop_details,
                                      nextDayArrival = next_day_arrival\<rparr>))))"


section \<open>scrapper.py: the result extractor\<close>

text \<open>\<open>clean_price\<close>: the no-break space (code point 0xA0) becomes a space.\<close>

definition clean_price :: "string \<Rightarrow> string" where
  "clean_price price_str =
     (if price_str = [] then ''N/A''
      else map (\<lambda>c. if c = CHR 0xA0 then CHR '' '' else c) price_str)"

text \<open>
  \<open>generate_booking_link\<close>: \<open>BASE_URL + suffix_url\<close>, where the suffix is the \<open>href\<close>
  attribute and may be \<open>None\<close>. \<open>BASE_URL\<close> of the absent module \<open>config\<close> is a parameter.
\<close>

definition generate_booking_link :: "string \<Rightarrow> string option \<Rightarrow> error + string" where
  "generate_booking_link BASE_URL suffix_url =
     (case suffix_url of
        None \<Rightarrow> Inl (TypeError (''can only concatenate str (not '' @ [CHR 0x22] @ ''NoneType''
                            @ [CHR 0x22] @ '') to str''))
      | Some u \<Rightarrow> Inr (BASE_URL @ u))"

record Baggage =
  carryOn :: int
  checkedBags :: int

record FlightDetails =
  price :: string
  fareTypes :: "string list"
  availableSites :: int
  baggage :: Baggage
  bookingLink :: string

record Metadata =
  multipleAirlines :: bool
  bookingButtonText :: string

record FlightResult =
  flightDetails :: FlightDetails
  outboundFlight :: leg_dict
  returnFlight :: leg_dict
  metadata :: Metadata

text \<open>The test "Skip advertisements".\<close>

definition is_advertisement :: "elem \<Rightarrow> bool" where
  "is_advertisement item =
     (query_selector item ''.hJSA-list'' = None
      \<or> query_selector item ''.c_3eP-badge-content, .NAnQ-ad-badge'' \<noteq> None)"

text \<open>\<open>int(e.inner_text().split()[0]) if e and e.inner_text().split()[0].isdigit() else 0\<close>\<close>

definition available_sites :: "elem option \<Rightarrow> error + int" where
  "available_sites e =
     (case e of
        None \<Rightarrow> Inr 0
      | Some el \<Rightarrow>
          (case first_item (split_ws (inner_text el)) of
             Inl err \<Rightarrow> Inl err
           | Inr tok \<Rightarrow> if py_isdigit tok then py_int tok else Inr 0))"

text \<open>\<open>int(e.inner_text()) if e and e.inner_text().isdigit() else 0\<close>\<close>

definition bag_count :: "elem option \<Rightarrow> error + int" where
  "bag_count e =
     (case e of
        None \<Rightarrow> Inr 0
      | Some el \<Rightarrow> if py_isdigit (inner_text el) then py_int (inner_text el) else Inr 0)"

text \<open>Selectors that contain quotation marks (code point 0x27).\<close>

definition fee_box_sel :: "string \<Rightarrow> string" where
  "fee_box_sel label =
     ''.ac27-fee-box[aria-label*='' @ [CHR 0x27] @ label @ [CHR 0x27]
     @ ''] .ac27-inner:last-child''"

definition booking_link_sel :: string where
  "booking_link_sel =
     ''.nrc6-price-section .M_JD-booking-btn a[role='' @ [CHR 0x27] @ ''link'' @ [CHR 0x27] @ '']''"

definition multiple_airlines_sel :: string where
  "multiple_airlines_sel =
     ''div:has-text('' @ [CHR 0x27] @ ''Multiple Airlines'' @ [CHR 0x27] @ '')''"

text \<open>
  The body of the loop over the result cards for a card that is in the window and is not an
  advertisement: the two legs are parsed first, then the dict is built key by key.
\<close>

definition extract_result :: "string \<Rightarrow> elem \<Rightarrow> error + FlightResult" where
  "extract_result BASE_URL item =
     (case parse_flight_leg (query_selector item ''.hJSA-list > li:nth-child(1)'') of
        Inl e \<Rightarrow> Inl e
      | Inr outbound_flight \<Rightarrow>
     (case parse_flight_leg (query_selector item ''.hJSA-list > li:nth-child(2)'') of
        Inl e \<Rightarrow> Inl e
      | Inr return_flight \<Rightarrow>
     (case available_sites (query_selector item ''.M_JD-num-sites-label'') of
        Inl e \<Rightarrow> Inl e
      | Inr sites \<Rightarrow>
     (case bag_count (query_selector item (fee_box_sel ''carry-on bag'')) of
        Inl e \<Rightarrow> Inl e
      | Inr carry_on \<Rightarrow>
     (case bag_count (query_selector item (fee_box_sel ''checked bag'')) of
        Inl e \<Rightarrow> Inl e
      | Inr checked \<Rightarrow>
     (case (case query_selector item booking_link_sel of
              None \<Rightarrow> Inr ''https://www.ca.kayak.com''
            | Some a \<Rightarrow> generate_booking_link BASE_URL (get_attribute a ''href'')) of
        Inl e \<Rightarrow> Inl e
      | Inr link \<Rightarrow>
          Inr \<lparr>flightDetails =
                 \<lparr>price = (case query_selector item ''.e2GB-price-text'' of
                              None \<Rightarrow> ''N/A'' | Some pe \<Rightarrow> clean_price (inner_text pe)),
                  fareTypes = (case query_selector item ''.DOum-name'' of
                                 None \<Rightarrow> [] | Some fe \<Rightarrow> split_comma_space (inner_text fe)),
                  availableSites = sites,
                  baggage = \<lparr>carryOn = carry_on, checkedBags = checked\<rparr>,
                  bookingLink = link\<rparr>,
               outboundFlight = outbound_flight,
               returnFlight = return_flight,
               metadata =
                 \<lparr>multipleAirlines =
                    (query_selector item multiple_airlines_sel \<noteq> None),
                  bookingButtonText = (case query_selector item ''.dOAU-booking-text'' of
                                         None \<Rightarrow> ''N/A'' | Some be \<Rightarrow> inner_text be)\<rparr>\<rparr>))))))"

text \<open>
  \<open>for idx, item in enumerate(result_items)\<close> with the list \<open>flight_data\<close> it appends to; an
  exception raised for one card ends the loop.
\<close>

fun extract_flights ::
  "string \<Rightarrow> int \<Rightarrow> int \<Rightarrow> (nat \<times> elem) list \<Rightarrow> FlightResult list \<Rightarrow> error + FlightResult list" where
  "extract_flights BASE_URL start_index end_index [] flight_data = Inr flight_data"
| "extract_flights BASE_URL start_index end_index ((idx, item) # rest) flight_data =
     (if int idx < start_index \<or> int idx > end_index
        then extract_flights BASE_URL start_index end_index rest flight_data
      else if is_advertisement item
        then extract_flights BASE_URL start_index end_index rest flight_data
      else (case extract_result BASE_URL item of
              Inl e \<Rightarrow> Inl e
            | Inr r \<Rightarrow> extract_flights BASE_URL start_index end_index rest (flight_data @ [r])))"


section \<open>scrapper.py: the orchestrator\<close>

datatype status = success | no_flights_found

record SearchParams =
  search_url :: string
  sp_departure_airport :: string
  sp_arrival_airport :: string
  sp_departure_date :: string
  sp_return_date :: "string option"
  sp_passengers :: PassengersDict
  sp_plane_type :: string
  sp_sort_option :: string
  sp_filters :: "FiltersDict option"
  sp_start_index :: int
  sp_end_index :: int

text \<open>
  The report dict. An error report has no key \<open>flights\<close> (\<open>None\<close> here); the \<open>message\<close> of a
  success report may be \<open>None\<close>.
\<close>

record Report =
  status :: status
  flights :: "FlightResult list option"
  total_results :: int
  message :: "string option"
  search_parameters :: SearchParams

text \<open>
  The browser session and the file store are the world outside; \<open>'s\<close> is its state. An
  action takes the state and gives back the new state together with its result, which is
  either a value or the exception it raised. The state is still there after an exception.
\<close>

type_synonym ('s, 'a) io = "'s \<Rightarrow> (error + 'a) \<times> 's"

definition io_return :: "'a \<Rightarrow> ('s, 'a) io" where
  "io_return a s = (Inr a, s)"

definition io_raise :: "error \<Rightarrow> ('s, 'a) io" where
  "io_raise e s = (Inl e, s)"

definition io_bind :: "('s, 'a) io \<Rightarrow> ('a \<Rightarrow> ('s, 'b) io) \<Rightarrow> ('s, 'b) io" where
  "io_bind m f s = (case m s of (Inl e, s') \<Rightarrow> (Inl e, s') | (Inr a, s') \<Rightarrow> f a s')"

text \<open>
  What the orchestrator asks of the world:
  \<^item> \<open>launch\<close>: start Playwright, launch the browser, open the context and the page;
  \<^item> \<open>navigate url\<close>: \<open>page.goto\<close>, wait for the load state, scroll;
  \<^item> \<open>screenshot path\<close>: \<open>page.screenshot\<close>;
  \<^item> \<open>write_page path\<close>: write \<open>page.content()\<close> to the file;
  \<^item> \<open>wait_for_results\<close>: \<open>page.wait_for_selector\<close> for the result container;
  \<^item> \<open>click_show_more\<close>: click the button and wait five seconds;
  \<^item> \<open>browser_close\<close>: \<open>browser.close()\<close>;
  \<^item> \<open>save_report r\<close>: write \<open>flights_data.json\<close> and \<open>flights_data.csv\<close> for the report;
  \<^item> \<open>page_dom\<close>: the document that \<open>page.query_selector\<close> and \<open>page.query_selector_all\<close>
    read in a state;
  \<^item> \<open>page_step\<close>: what the page does by itself between one read of the scraper and the
    next one (cards that arrive or go while the script runs). An action of the scraper
    takes time as well; what the page does meanwhile is part of the action.
\<close>

record 's browser =
  launch :: "('s, unit) io"
  navigate :: "string \<Rightarrow> ('s, unit) io"
  screenshot :: "string \<Rightarrow> ('s, unit) io"
  write_page :: "string \<Rightarrow> ('s, unit) io"
  wait_for_results :: "('s, unit) io"
  click_show_more :: "('s, unit) io"
  browser_close :: "('s, unit) io"
  save_report :: "Report \<Rightarrow> ('s, unit) io"
  page_dom :: "'s \<Rightarrow> elem"
  page_step :: "'s \<Rightarrow> 's"

definition result_sel :: string where
  "result_sel = ''.Fxw9-result-item-container''"

definition show_more_sel :: string where
  "show_more_sel = ''div.ULvh-button.show-more-button''"

definition no_results_sel :: string where
  "no_results_sel =
     ''div[class*='' @ [CHR 0x27] @ ''no-results'' @ [CHR 0x27] @ ''], div:has-text(''
     @ [CHR 0x27] @ ''No flights found'' @ [CHR 0x27] @ ''), div:has-text('' @ [CHR 0x27]
     @ ''no results'' @ [CHR 0x27] @ '')''"

definition error_response :: "string \<Rightarrow> SearchParams \<Rightarrow> Report" where
  "error_response msg sp =
     \<lparr>status = no_flights_found, flights = None, total_results = 0, message = Some msg,
      search_parameters = sp\<rparr>"

text \<open>Write the two files, then \<open>return\<close> the report.\<close>

definition finish :: "'s browser \<Rightarrow> Report \<Rightarrow> ('s, Report) io" where
  "finish env r = io_bind (save_report env r) (\<lambda>_. io_return r)"

text \<open>
  The retry loop of the navigation; the result says whether the loop was left by \<open>break\<close>
  (the page is loaded) or ran out of attempts (the \<open>else\<close> of the \<open>while\<close>).
\<close>

function navigate_loop :: "'s browser \<Rightarrow> string \<Rightarrow> nat \<Rightarrow> ('s, bool) io" where
  "navigate_loop env url attempts s =
     (if attempts < 3 then
        (case navigate env url s of
           (Inr _, s1) \<Rightarrow> (Inr True, s1)
         | (Inl e, s1) \<Rightarrow>
             (case screenshot env (''timeout_screenshot_attempt_'' @ str_nat (attempts + 1) @ ''.png'') s1 of
                (Inl e2, s2) \<Rightarrow> (Inl e2, s2)
              | (Inr _, s2) \<Rightarrow>
                  (case write_page env (''timeout_page_attempt_'' @ str_nat (attempts + 1) @ ''.html'') s2 of
                     (Inl e3, s3) \<Rightarrow> (Inl e3, s3)
                   | (Inr _, s3) \<Rightarrow> navigate_loop env url (attempts + 1) s3)))
      else (Inr False, s))"
  by pat_completeness auto
termination
  by (relation "measure (\<lambda>(env, url, attempts, s). 3 - attempts)") auto

declare navigate_loop.simps [simp del]

text \<open>
  The pagination loop \<open>while current_results < target_results\<close>. Every pass reads the page
  anew: the cards at the top of the pass, then the button, and the cards again after the
  click and the wait; between two reads the page takes a step of its own. Nothing in the
  loop bounds the number of passes, so the loop is a partial function: \<open>None\<close> is the loop
  that never ends. Beside the outcome and the new state the model returns how many times
  the body of the loop was entered; the source does not compute that number, the bound on
  it is what is proved below.
\<close>

partial_function (option) paginate_run ::
  "'s browser \<Rightarrow> int \<Rightarrow> int \<Rightarrow> 's \<Rightarrow> (((error + unit) \<times> 's) \<times> nat) option" where
  "paginate_run env target_results current_results s =
     (if current_results < target_results then
        (if int (length (query_selector_all (page_dom env (page_step env s)) result_sel))
              \<ge> target_results
            \<or> query_selector (page_dom env (page_step env (page_step env s))) show_more_sel = None
         then Some ((Inr (), page_step env (page_step env s)), 1)
         else
           (case click_show_more env (page_step env (page_step env s)) of
              (Inr _, s1) \<Rightarrow>
                (if int (length (query_selector_all (page_dom env s1) result_sel))
                      \<le> int (length (query_selector_all (page_dom env (page_step env s)) result_sel))
                 then Some ((Inr (), s1), 1)
                 else
                   Option.bind
                     (paginate_run env target_results
                        (int (length (query_selector_all (page_dom env s1) result_sel))) s1)
                     (\<lambda>(r, k). Some (r, Suc k)))
            | (Inl e, s1) \<Rightarrow>
                Some (io_bind (screenshot env ''show_more_error_screenshot.png'')
                        (\<lambda>_. write_page env ''show_more_error_page.html'') s1, 1)))
      else Some ((Inr (), s), 0))"

definition paginate ::
  "'s browser \<Rightarrow> int \<Rightarrow> int \<Rightarrow> 's \<Rightarrow> ((error + unit) \<times> 's) option" where
  "paginate env target_results current_results s =
     map_option fst (paginate_run env target_results current_results s)"

text \<open>The part "Process all available results" up to the \<open>return\<close> of the success report.\<close>

definition extracting ::
  "'s browser \<Rightarrow> string \<Rightarrow> SearchParams \<Rightarrow> int \<Rightarrow> int \<Rightarrow> ('s, Report) io" where
  "extracting env BASE_URL sp start_index end_index s =
     (let result_items = query_selector_all (page_dom env s) result_sel in
      if result_items = [] then
        io_bind (screenshot env ''no_results_screenshot.png'') (\<lambda>_.
        io_bind (write_page env ''no_results_page.html'') (\<lambda>_.
        io_bind (browser_close env) (\<lambda>_.
        finish env (error_response ''No flight results found for the specified parameters'' sp)))) s
      else
        (case extract_flights BASE_URL start_index end_index (enumerate 0 result_items) [] of
           Inl e \<Rightarrow> (Inl e, s)
         | Inr flight_data \<Rightarrow>
             io_bind (browser_close env) (\<lambda>_.
             finish env
               \<lparr>status = success, flights = Some flight_data,
                total_results = int (length result_items),
                message =
                  (if int (length result_items) < end_index + 1
                   then Some (''Requested up to index '' @ str_int end_index @ '', but only ''
                              @ str_int (int (length result_items)) @ '' results available.'')
                   else None),
                search_parameters = sp\<rparr>) s))"

text \<open>
  The body of the \<open>try\<close>; \<open>None\<close> when the pagination loop never ends. The extraction reads
  the cards once more, after the page has taken its step.
\<close>

definition scrape_session ::
  "'s browser \<Rightarrow> string \<Rightarrow> string \<Rightarrow> SearchParams \<Rightarrow> int \<Rightarrow> int
   \<Rightarrow> 's \<Rightarrow> ((error + Report) \<times> 's) option" where
  "scrape_session env BASE_URL url sp start_index end_index s =
     (case launch env s of
        (Inl e, s0) \<Rightarrow> Some (Inl e, s0)
      | (Inr _, s0) \<Rightarrow>
     (case navigate_loop env url 0 s0 of
        (Inl e, s1) \<Rightarrow> Some (Inl e, s1)
      | (Inr loaded, s1) \<Rightarrow>
          if \<not> loaded then
            Some (io_bind (screenshot env ''timeout_screenshot_final.png'') (\<lambda>_.
                  io_bind (browser_close env) (\<lambda>_.
                  finish env (error_response ''Failed to load Kayak page after multiple attempts'' sp)))
                    s1)
          else if query_selector (page_dom env s1) no_results_sel \<noteq> None then
            Some (io_bind (browser_close env) (\<lambda>_.
                  finish env (error_response ''No flights available for the specified parameters'' sp))
                    s1)
          else
            (case wait_for_results env s1 of
               (Inl e, s2) \<Rightarrow>
                 Some (io_bind (screenshot env ''no_results_screenshot.png'') (\<lambda>_.
                       io_bind (write_page env ''no_results_page.html'') (\<lambda>_.
                       io_bind (browser_close env) (\<lambda>_.
                       finish env
                         (error_response (''Flight results container not found: '' @ error_text e) sp))))
                         s2)
             | (Inr _, s2) \<Rightarrow>
                 (case paginate env (end_index + 1) 0 s2 of
                    None \<Rightarrow> None
                  | Some (Inl e, s3) \<Rightarrow> Some (Inl e, s3)
                  | Some (Inr _, s3) \<Rightarrow>
                      Some (extracting env BASE_URL sp start_index end_index (page_step env s3))))))"

text \<open>
  \<open>scrape_flights\<close>: the two index checks and the URL builder raise to the caller; the
  session runs inside \<open>try\<close>, and the handler of \<open>except Exception\<close> builds the error report
  and writes the files. \<open>None\<close> when the session never ends.
\<close>

definition scrape_flights ::
  "'s browser \<Rightarrow> string \<Rightarrow> string \<Rightarrow> string \<Rightarrow> string \<Rightarrow> string \<Rightarrow> string option
   \<Rightarrow> FlightPassengers \<Rightarrow> PlaneType \<Rightarrow> SortOption \<Rightarrow> FlightFilters option \<Rightarrow> int \<Rightarrow> int
   \<Rightarrow> 's \<Rightarrow> ((error + Report) \<times> 's) option" where
  "scrape_flights env BASE_SEARCH_URL BASE_URL departure_airport arrival_airport departure_date
      return_date passengers plane_type sort_option filters start_index end_index s =
     (if start_index < 0 then Some (Inl (ValueError ''start_index cannot be negative''), s)
      else if end_index < start_index
        then Some (Inl (ValueError ''end_index must be greater than or equal to start_index''), s)
      else
        (case generate_search_url BASE_SEARCH_URL departure_airport arrival_airport
                departure_date return_date passengers plane_type sort_option filters of
           Inl e \<Rightarrow> Some (Inl e, s)
         | Inr url \<Rightarrow>
             let search_params =
                   \<lparr>search_url = url, sp_departure_airport = departure_airport,
                    sp_arrival_airport = arrival_airport, sp_departure_date = departure_date,
                    sp_return_date = return_date,
                    sp_passengers = passengers_to_dict passengers,
                    sp_plane_type = PlaneType_value plane_type,
                    sp_sort_option = SortOption_value sort_option,
                    sp_filters = map_option filters_to_dict filters,
                    sp_start_index = start_index, sp_end_index = end_index\<rparr>
             in (case scrape_session env BASE_URL url search_params start_index end_index s of
                   None \<Rightarrow> None
                 | Some (Inl e, s1) \<Rightarrow>
                     Some (finish env
                             (error_response (''Error occurred: '' @ error_text e) search_params) s1)
                 | Some (Inr r, s1) \<Rightarrow> Some (Inr r, s1))))"


section \<open>main.py: the tool\<close>

text \<open>
  \<open>datetime.strptime(s, "%Y-%m-%d")\<close> as the tool calls it, on a string that has passed the
  test \<open>^\d{4}-\d{2}-\d{2}$\<close>: the whole string must be consumed (a newline at the end is
  left over), the year is at least 1, and month and day are a date of the calendar.
\<close>

definition is_leap :: "int \<Rightarrow> bool" where
  "is_leap y = (y mod 4 = 0 \<and> (y mod 100 \<noteq> 0 \<or> y mod 400 = 0))"

definition days_in_month :: "int \<Rightarrow> int \<Rightarrow> int" where
  "days_in_month y m =
     (if m = 2 then (if is_leap y then 29 else 28)
      else if m = 4 \<or> m = 6 \<or> m = 9 \<or> m = 11 then 30 else 31)"

definition strptime_ymd :: "string \<Rightarrow> error + (int \<times> int \<times> int)" where
  "strptime_ymd s =
     (if match_date s \<and> length s = 10 then
        let y = digits_val (take 4 s); m = digits_val (take 2 (drop 5 s));
            d = digits_val (take 2 (drop 8 s))
        in if 1 \<le> y \<and> 1 \<le> m \<and> m \<le> 12 \<and> 1 \<le> d \<and> d \<le> days_in_month y m
           then Inr (y, m, d)
           else Inl (ValueError ''time data does not match format'')
      else Inl (ValueError ''unconverted data remains''))"

text \<open>\<open>strftime('%m-%d')\<close>: month and day, each of two digits.\<close>

definition pad2 :: "int \<Rightarrow> string" where
  "pad2 n = (if n < 10 then CHR ''0'' # str_int n else str_int n)"

definition strftime_md :: "int \<times> int \<times> int \<Rightarrow> string" where
  "strftime_md t = (case t of (y, m, d) \<Rightarrow> pad2 m @ ''-'' @ pad2 d)"

text \<open>
  The block "Validate and adjust" for one date; \<open>which\<close> is the word \<open>departure\<close> or
  \<open>return\<close> of the two messages. \<open>Inl\<close> is the text that the tool returns at once.
\<close>

definition adjust_date :: "int \<Rightarrow> string \<Rightarrow> string \<Rightarrow> string + string" where
  "adjust_date current_year which date =
     (if \<not> match_date date
        then Inl (''Invalid '' @ which @ '' date format: Must be YYYY-MM-DD.'')
      else (case strptime_ymd date of
              Inl e \<Rightarrow> Inl (''Invalid '' @ which @ '' date: Unable to parse date.'')
            | Inr t \<Rightarrow>
                if fst t < current_year
                then Inr (str_int current_year @ ''-'' @ strftime_md t)
                else Inr date))"

fun ChildType_of :: "string \<Rightarrow> ChildType option" where
  "ChildType_of v =
     (if v = ''11'' then Some CHILD else if v = ''1S'' then Some TODDLER_SEAT
      else if v = ''1L'' then Some INFANT_LAP else None)"

text \<open>The members of the enums in the order of their definition, and the lookup by value.\<close>

definition PlaneType_members :: "PlaneType list" where
  "PlaneType_members = [ECONOMY, PREMIUM, BUSINESS, FIRST]"

definition SortOption_members :: "SortOption list" where
  "SortOption_members =
     [BEST_FLIGHT, QUICKEST, SLOWEST, CHEAPEST, MOST_EXPENSIVE, EARLIEST_TAKEOFF_A,
      LATEST_TAKEOFF_A, EARLIEST_LANDING_B, LATEST_LANDING_B, EARLIEST_TAKEOFF_B,
      LATEST_TAKEOFF_B, EARLIEST_LANDING_A, LATEST_LANDING_A]"

definition Alliance_members :: "Alliance list" where
  "Alliance_members = [VALUE_ALLIANCE, ONE_WORLD, SKY_TEAM, STAR_ALLIANCE]"

definition PlaneType_of :: "string \<Rightarrow> PlaneType option" where
  "PlaneType_of v = map_of (map (\<lambda>e. (PlaneType_value e, e)) PlaneType_members) v"

definition SortOption_of :: "string \<Rightarrow> SortOption option" where
  "SortOption_of v = map_of (map (\<lambda>e. (SortOption_value e, e)) SortOption_members) v"

definition Alliance_of :: "string \<Rightarrow> Alliance option" where
  "Alliance_of v = map_of (map (\<lambda>e. (Alliance_value e, e)) Alliance_members) v"

text \<open>The keyword arguments of \<open>scrape_flights_tool\<close>; the field \<open>arg_x\<close> is the parameter \<open>x\<close>.\<close>

record ToolArgs =
  arg_departure_airport :: string
  arg_arrival_airport :: string
  arg_departure_date :: string
  arg_return_date :: "string option"
  arg_adults :: int
  arg_students :: int
  arg_children :: "string list"
  arg_plane_type :: string
  arg_sort_option :: string
  arg_carry_on_free :: "int option"
  arg_checked_bags_free :: "int option"
  arg_stops :: "int option"
  arg_max_price :: "int option"
  arg_alliance :: "string option"
  arg_include_airlines :: "string list option"
  arg_exclude_airlines :: "string list option"
  arg_wifi_only :: bool
  arg_start_index :: int
  arg_end_index :: int

text \<open>The arguments with which the tool calls \<open>scrape_flights\<close>.\<close>

record ScrapeCall =
  call_departure_airport :: string
  call_arrival_airport :: string
  call_departure_date :: string
  call_return_date :: "string option"
  call_passengers :: FlightPassengers
  call_plane_type :: PlaneType
  call_sort_option :: SortOption
  call_filters :: FlightFilters
  call_start_index :: int
  call_end_index :: int

text \<open>\<open>if codes and not all(re.match(r"^[A-Z0-9]{2}$", code) for code in codes)\<close>\<close>

definition bad_airlines :: "string list option \<Rightarrow> bool" where
  "bad_airlines codes =
     (case codes of None \<Rightarrow> False | Some cs \<Rightarrow> cs \<noteq> [] \<and> \<not> list_all match_airline cs)"

text \<open>
  The checks of the tool after the two dates are adjusted, in the order of the source, and
  the conversion of the arguments. \<open>Inl\<close> is the text returned without scraping. The
  messages for a wrong cabin class, sort option or alliance list the allowed values in the
  order in which the interpreter iterates over the set \<open>{e.value for e in ...}\<close>; that order
  depends on the hashes of the strings, so it is the parameter \<open>set_iter\<close>, which takes the
  values in the order of the enum to the order of the set.
\<close>

definition validate_and_convert ::
  "(string list \<Rightarrow> string list) \<Rightarrow> ToolArgs \<Rightarrow> string \<Rightarrow> string option \<Rightarrow> string + ScrapeCall" where
  "validate_and_convert set_iter a departure_date return_date =
     (if \<not> match_airport (arg_departure_airport a)
        then Inl ''Invalid departure airport code: Must be a 3-letter IATA code.''
      else if \<not> match_airport (arg_arrival_airport a)
        then Inl ''Invalid arrival airport code: Must be a 3-letter IATA code.''
      else if \<not> match_date departure_date
        then Inl ''Invalid departure date format: Must be YYYY-MM-DD.''
      else if truthy return_date \<and> \<not> match_date (the return_date)
        then Inl ''Invalid return date format: Must be YYYY-MM-DD.''
      else if arg_adults a < 0 \<or> arg_students a < 0
        then Inl ''Adults and students cannot be negative.''
      else if arg_adults a = 0 \<and> arg_students a = 0 \<and> arg_children a = []
        then Inl ''At least one passenger is required.''
      else if arg_children a \<noteq> [] \<and> \<not> list_all (\<lambda>c. ChildType_of c \<noteq> None) (arg_children a)
        then Inl (''Invalid child type. Must be '' @ [CHR 0x27] @ ''11'' @ [CHR 0x27] @ '', ''
                  @ [CHR 0x27] @ ''1S'' @ [CHR 0x27] @ '', or '' @ [CHR 0x27] @ ''1L''
                  @ [CHR 0x27] @ ''.'')
      else if PlaneType_of (arg_plane_type a) = None
        then Inl (''Invalid plane_type. Must be one of: ''
                  @ join '', '' (set_iter (map PlaneType_value PlaneType_members)) @ ''.'')
      else if SortOption_of (arg_sort_option a) = None
        then Inl (''Invalid sort_option. Must be one of: ''
                  @ join '', '' (set_iter (map SortOption_value SortOption_members)) @ ''.'')
      else if truthy (arg_alliance a) \<and> Alliance_of (the (arg_alliance a)) = None
        then Inl (''Invalid alliance. Must be one of: ''
                  @ join '', '' (set_iter (map Alliance_value Alliance_members)) @ ''.'')
      else if bad_airlines (arg_include_airlines a)
        then Inl ''Invalid include_airlines: All codes must be 2-character IATA codes.''
      else if bad_airlines (arg_exclude_airlines a)
        then Inl ''Invalid exclude_airlines: All codes must be 2-character IATA codes.''
      else if (case arg_carry_on_free a of None \<Rightarrow> False | Some v \<Rightarrow> v < 0)
        then Inl ''carry_on_free cannot be negative.''
      else if (case arg_checked_bags_free a of None \<Rightarrow> False | Some v \<Rightarrow> v < 0)
        then Inl ''checked_bags_free cannot be negative.''
      else if (case arg_stops a of None \<Rightarrow> False | Some v \<Rightarrow> v < 0)
        then Inl ''stops cannot be negative.''
      else if (case arg_max_price a of None \<Rightarrow> False | Some v \<Rightarrow> v \<le> 0)
        then Inl ''max_price must be positive.''
      else if arg_start_index a < 0
        then Inl ''start_index must be a non-negative integer.''
      else if arg_end_index a < arg_start_index a
        then Inl ''end_index must be an integer greater than or equal to start_index.''
      else
        (case FlightPassengers_init (arg_adults a) (arg_students a)
                (Some (map (\<lambda>c. the (ChildType_of c)) (arg_children a))) of
           Inl e \<Rightarrow> Inl (''Error creating passenger or filter objects: '' @ error_text e)
         | Inr passengers \<Rightarrow>
             Inr \<lparr>call_departure_airport = arg_departure_airport a,
                  call_arrival_airport = arg_arrival_airport a,
                  call_departure_date = departure_date,
                  call_return_date = return_date,
                  call_passengers = passengers,
                  call_plane_type = the (PlaneType_of (arg_plane_type a)),
                  call_sort_option = the (SortOption_of (arg_sort_option a)),
                  call_filters =
                    \<lparr>carry_on_free = arg_carry_on_free a,
                     checked_bags_free = arg_checked_bags_free a,
                     stops = arg_stops a,
                     max_price = arg_max_price a,
                     alliance = (if truthy (arg_alliance a)
                                 then Alliance_of (the (arg_alliance a)) else None),
                     include_airlines = arg_include_airlines a,
                     exclude_airlines = arg_exclude_airlines a,
                     wifi_only = arg_wifi_only a\<rparr>,
                  call_start_index = arg_start_index a,
                  call_end_index = arg_end_index a\<rparr>))"

text \<open>
  \<open>scrape_flights_tool\<close> from its first line to the call of \<open>scrape_flights\<close>:
  \<open>current_year\<close> is \<open>datetime.now().year\<close>. The result is the text that the tool returns
  without scraping, or the arguments that it passes to \<open>scrape_flights\<close>. (What follows the
  call, the rendering of the report as text, is not modelled.)
\<close>

definition scrape_flights_tool_call ::
  "(string list \<Rightarrow> string list) \<Rightarrow> int \<Rightarrow> ToolArgs \<Rightarrow> string + ScrapeCall" where
  "scrape_flights_tool_call set_iter current_year a =
     (case adjust_date current_year ''departure'' (arg_departure_date a) of
        Inl msg \<Rightarrow> Inl msg
      | Inr departure_date \<Rightarrow>
          if truthy (arg_return_date a) then
            (case adjust_date current_year ''return'' (the (arg_return_date a)) of
               Inl msg \<Rightarrow> Inl msg
             | Inr return_date \<Rightarrow>
                 validate_and_convert set_iter a departure_date (Some return_date))
          else validate_and_convert set_iter a departure_date (arg_return_date a))"

section \<open>Notions used in the statements\<close>

text \<open>The child types in the lexicographic order of their codes: \<open>11\<close>, \<open>1L\<close>, \<open>1S\<close>.\<close>

definition code_order :: "ChildType list" where
  "code_order = [CHILD, INFANT_LAP, TODDLER_SEAT]"

text \<open>
  The filter segment in the words of the specification: one token for each field that is
  set, in the fixed order. A numeric field and the alliance are set when they are not \<open>None\<close>,
  a set of airline codes when it is given and not empty, the wifi flag when it is true.
\<close>

definition spec_filter_tokens :: "FlightFilters \<Rightarrow> string list" where
  "spec_filter_tokens f =
     (case carry_on_free f of None \<Rightarrow> [] | Some v \<Rightarrow> [''cfc='' @ str_int v]) @
     (case checked_bags_free f of None \<Rightarrow> [] | Some v \<Rightarrow> [''bfc='' @ str_int v]) @
     (case FlightFilters.stops f of None \<Rightarrow> [] | Some v \<Rightarrow> [''stops='' @ str_int v]) @
     (case max_price f of None \<Rightarrow> [] | Some v \<Rightarrow> [''price=-'' @ str_int v]) @
     (case alliance f of None \<Rightarrow> [] | Some a \<Rightarrow> [''alliance='' @ Alliance_value a]) @
     (case include_airlines f of None \<Rightarrow> []
      | Some cs \<Rightarrow> if cs = [] then [] else [''airlines='' @ join '','' cs]) @
     (case exclude_airlines f of None \<Rightarrow> []
      | Some cs \<Rightarrow> if cs = [] then [] else [''airlines=-'' @ join '','' cs]) @
     (if wifi_only f then [''wifi=wifi''] else [])"

text \<open>The leg with every field at its sentinel default, in the words of the specification.\<close>

definition sentinel_leg :: FlightLeg where
  "sentinel_leg =
     \<lparr>departureTime = ''N/A'', departureAirport = \<lparr>code = ''N/A'', name = ''N/A''\<rparr>,
      arrivalTime = ''N/A'', arrivalAirport = \<lparr>code = ''N/A'', name = ''N/A''\<rparr>,
      duration = ''N/A'', airlines = [Some ''N/A''], stops = 0, stopDetails = [],
      nextDayArrival = False\<rparr>"

text \<open>The selector of the stop markers.\<close>

definition stop_sel :: string where
  "stop_sel = ''.JWEO .c_cgF-mod-variant-full-airport > span''"


text \<open>The result cards that are materialized in a state of the page.\<close>

definition materialized :: "'s browser \<Rightarrow> 's \<Rightarrow> elem list" where
  "materialized env s = query_selector_all (page_dom env s) result_sel"

text \<open>
  The cards of the requested window that are not advertisements, each with its index, in
  the order of the page.
\<close>

definition window :: "int \<Rightarrow> int \<Rightarrow> elem list \<Rightarrow> (nat \<times> elem) list" where
  "window start_index end_index cards =
     filter (\<lambda>x. start_index \<le> int (fst x) \<and> int (fst x) \<le> end_index
                 \<and> \<not> is_advertisement (snd x))
       (enumerate 0 cards)"


section \<open>Concrete inputs\<close>

text \<open>A stop marker with its code and the text of its layover.\<close>

definition stop_marker :: "string \<Rightarrow> string \<Rightarrow> elem" where
  "stop_marker c txt =
     Elem c []
       [(''span'', [Elem c [] []]),
        (''.hEI8'', [Elem txt [] [(''.AFFP'', [Elem ''Airport'' [] []])]])]"

text \<open>
  A leg from Toronto to Hong Kong whose stop text is \<open>stops_text\<close>, with four stop markers:
  Vancouver, the departure airport itself, Vancouver again, and Tokyo without a layover time.
\<close>

definition example_leg :: "string \<Rightarrow> elem" where
  "example_leg stops_text =
     Elem [] []
       [(''.VY2U .vmXl span'', [Elem ''10:00'' [] [], Elem ''-'' [] [], Elem ''12:00'' [] []]),
        (''.EFvI'',
           [Elem [] []
              [(''.jLhY-airport-info'',
                  [Elem [] [] [(''span'', [Elem ''YYZ'' [] [], Elem ''Toronto'' [] []])],
                   Elem [] [] [(''span'', [Elem ''HKG'' [] [], Elem ''Hong Kong'' [] []])]])]]),
        (''.JWEO-stops-text'', [Elem stops_text [] []]),
        (''.JWEO .c_cgF-mod-variant-full-airport > span'',
           [stop_marker ''YVR'' ''2h 30m layover, Vancouver'',
            stop_marker ''YYZ'' ''1h 5m layover'',
            stop_marker ''YVR'' ''9h 9m layover'',
            stop_marker ''NRT'' ''long layover''])]"

text \<open>
  A leg from Toronto to Hong Kong with one stop and two markers for Vancouver: the first
  has the code and no layover element \<open>.hEI8\<close>, the second has the code and a layover.
\<close>

definition bare_marker :: "string \<Rightarrow> elem" where
  "bare_marker c = Elem c [] [(''span'', [Elem c [] []])]"

definition two_marker_leg :: elem where
  "two_marker_leg =
     Elem [] []
       [(''.VY2U .vmXl span'', [Elem ''10:00'' [] [], Elem ''-'' [] [], Elem ''12:00'' [] []]),
        (''.EFvI'',
           [Elem [] []
              [(''.jLhY-airport-info'',
                  [Elem [] [] [(''span'', [Elem ''YYZ'' [] [], Elem ''Toronto'' [] []])],
                   Elem [] [] [(''span'', [Elem ''HKG'' [] [], Elem ''Hong Kong'' [] []])]])]]),
        (''.JWEO-stops-text'', [Elem ''1 stop'' [] []]),
        (''.JWEO .c_cgF-mod-variant-full-airport > span'',
           [bare_marker ''YVR'', stop_marker ''YVR'' ''9h 9m layover''])]"

definition two_marker_leg_parsed :: FlightLeg where
  "two_marker_leg_parsed =
     \<lparr>departureTime = ''10:00'', departureAirport = \<lparr>code = ''YYZ'', name = ''Toronto''\<rparr>,
      arrivalTime = ''12:00'', arrivalAirport = \<lparr>code = ''HKG'', name = ''Hong Kong''\<rparr>,
      duration = ''N/A'', airlines = [Some ''N/A''], stops = 1,
      stopDetails =
        [\<lparr>airportCode = ''YVR'', airportName = ''Airport'', layoverDuration = ''9h 9m''\<rparr>],
      nextDayArrival = False\<rparr>"

definition example_leg_parsed :: FlightLeg where
  "example_leg_parsed =
     \<lparr>departureTime = ''10:00'', departureAirport = \<lparr>code = ''YYZ'', name = ''Toronto''\<rparr>,
      arrivalTime = ''12:00'', arrivalAirport = \<lparr>code = ''HKG'', name = ''Hong Kong''\<rparr>,
      duration = ''N/A'', airlines = [Some ''N/A''], stops = 2,
      stopDetails =
        [\<lparr>airportCode = ''YVR'', airportName = ''Airport'', layoverDuration = ''2h 30m''\<rparr>,
         \<lparr>airportCode = ''NRT'', airportName = ''Airport'', layoverDuration = ''N/A''\<rparr>],
      nextDayArrival = False\<rparr>"

text \<open>A result card with a price and no legs, and a card with the badge of an advertisement.\<close>

definition plain_card :: "string \<Rightarrow> elem" where
  "plain_card p =
     Elem [] [] [(''.hJSA-list'', [Elem [] [] []]), (''.e2GB-price-text'', [Elem p [] []])]"

definition ad_card :: elem where
  "ad_card =
     Elem [] []
       [(''.hJSA-list'', [Elem [] [] []]),
        (''.c_3eP-badge-content, .NAnQ-ad-badge'', [Elem ''Ad'' [] []])]"

text \<open>A page with three cards, the second an advertisement, and a "show more" button.\<close>

definition results_page :: elem where
  "results_page =
     Elem [] []
       [(result_sel, [plain_card ''C$ 1,200'', ad_card, plain_card ''C$ 1,500'']),
        (show_more_sel, [Elem ''Show more results'' [] []])]"

text \<open>A page that shows the indicator of no results.\<close>

definition no_results_page :: elem where
  "no_results_page = Elem [] [] [(no_results_sel, [Elem ''No flights found'' [] []])]"

text \<open>
  A world in which the browser always shows the same page, which does nothing by itself,
  and every action of the browser succeeds; the state counts the clicks on "show more". When \<open>writable\<close> is false the working
  directory is read-only: every write of a file raises.
\<close>

definition write_file :: "bool \<Rightarrow> string \<Rightarrow> (nat, unit) io" where
  "write_file writable path =
     (if writable then io_return ()
      else io_raise (EnvError (''[Errno 30] Read-only file system: '' @ path)))"

definition fixed_page_browser :: "elem \<Rightarrow> bool \<Rightarrow> nat browser" where
  "fixed_page_browser page writable =
     \<lparr>launch = io_return (),
      navigate = (\<lambda>url. io_return ()),
      screenshot = write_file writable,
      write_page = write_file writable,
      wait_for_results = io_return (),
      click_show_more = (\<lambda>s. (Inr (), Suc s)),
      browser_close = io_return (),
      save_report = (\<lambda>r. write_file writable ''flights_data.json''),
      page_dom = (\<lambda>s. page),
      page_step = (\<lambda>s. s)\<rparr>"



text \<open>The search parameters of the end-to-end scenario, as the orchestrator records them.\<close>

definition example_params :: SearchParams where
  "example_params =
     \<lparr>search_url = ''https://www.ca.kayak.com/flights/YYZ-HKG/2025-07-01/2adults/economy?sort=price_a'',
      sp_departure_airport = ''YYZ'', sp_arrival_airport = ''HKG'',
      sp_departure_date = ''2025-07-01'', sp_return_date = None,
      sp_passengers = \<lparr>pd_adults = 2, pd_students = 0, pd_children = []\<rparr>,
      sp_plane_type = ''economy'', sp_sort_option = ''price_a'', sp_filters = None,
      sp_start_index = 0, sp_end_index = 5\<rparr>"

text \<open>
  The result for a card with the price \<open>p\<close> and no legs, and the success report for the page
  of three cards when the window goes up to index 15.
\<close>

definition card_result :: "string \<Rightarrow> FlightResult" where
  "card_result p =
     \<lparr>flightDetails =
        \<lparr>price = p, fareTypes = [], availableSites = 0,
         baggage = \<lparr>carryOn = 0, checkedBags = 0\<rparr>,
         bookingLink = ''https://www.ca.kayak.com''\<rparr>,
      outboundFlight = EmptyDict, returnFlight = EmptyDict,
      metadata = \<lparr>multipleAirlines = False, bookingButtonText = ''N/A''\<rparr>\<rparr>"

definition three_card_report :: Report where
  "three_card_report =
     \<lparr>status = success,
      flights = Some [card_result ''C$ 1,200'', card_result ''C$ 1,500''],
      total_results = 3,
      message = Some ''Requested up to index 15, but only 3 results available.'',
      search_parameters = example_params\<lparr>sp_end_index := 15\<rparr>\<rparr>"

text \<open>An invocation of the tool with dates of the year 2024.\<close>

definition example_args :: ToolArgs where
  "example_args =
     \<lparr>arg_departure_airport = ''YYZ'', arg_arrival_airport = ''HKG'',
      arg_departure_date = ''2024-07-01'', arg_return_date = Some ''2024-07-25'',
      arg_adults = 2, arg_students = 0, arg_children = [], arg_plane_type = ''economy'',
      arg_sort_option = ''price_a'', arg_carry_on_free = Some 1, arg_checked_bags_free = None,
      arg_stops = None, arg_max_price = Some 6000, arg_alliance = None,
      arg_include_airlines = None, arg_exclude_airlines = None, arg_wifi_only = False,
      arg_start_index = 0, arg_end_index = 15\<rparr>"

text \<open>
  Two worlds with one fault each, the working directory writable: the click on "show more"
  raises (the page has three cards); the browser cannot be launched.
\<close>

definition failing_click_browser :: "nat browser" where
  "failing_click_browser =
     (fixed_page_browser results_page True)
       \<lparr>click_show_more := io_raise (EnvError ''Timeout 30000ms exceeded.'')\<rparr>"

definition no_browser :: "nat browser" where
  "no_browser =
     (fixed_page_browser results_page True)
       \<lparr>launch := io_raise (EnvError ''Executable does not exist'')\<rparr>"

text \<open>
  A world in which the cards come and go: the page shows three cards; a click on "show
  more" brings a fourth card, and the page takes it away again before the next read. The
  state is 1 while the fourth card is there. Every action succeeds.
\<close>

definition larger_page :: elem where
  "larger_page =
     Elem [] []
       [(result_sel, [plain_card ''C$ 1,200'', ad_card, plain_card ''C$ 1,500'',
                      plain_card ''C$ 1,700'']),
        (show_more_sel, [Elem ''Show more results'' [] []])]"

definition flickering_browser :: "nat browser" where
  "flickering_browser =
     (fixed_page_browser results_page True)
       \<lparr>click_show_more := (\<lambda>s. (Inr (), 1)),
        page_dom := (\<lambda>s. if s = 0 then results_page else larger_page),
        page_step := (\<lambda>s. 0)\<rparr>"



section \<open>The URL builder\<close>

lemma str_int_6000: "str_int 6000 = ''6000''"
  by (simp add: str_int_def str_nat.simps digit_char_def)

lemma str_int_2: "str_int 2 = ''2''"
  by (simp add: str_int_def str_nat.simps digit_char_def)

lemmas match_defs =
  match_airport_def match_date_def match_airline_def match_anchored_def is_upper_def
  is_ascii_digit_def

text \<open>
  Claim C6. For departure YYZ, arrival HKG, departure date 2025-07-01, return date
  2025-07-25, two adults and no other passengers, cabin ECONOMY, sort CHEAPEST and the only
  filter a maximal price of 6000, the URL builder returns, after the base URL and a slash,
  the path \<open>YYZ-HKG/2025-07-01/2025-07-25/2adults/economy\<close> and the query
  \<open>sort=price_a&fs=price=-6000\<close>. The passengers are a value that the constructor accepts.
\<close>

theorem C6_end_to_end_url:
  "FlightPassengers_init 2 0 None = Inr \<lparr>adults = 2, students = 0, children = []\<rparr> \<and>
   generate_search_url base ''YYZ'' ''HKG'' ''2025-07-01'' (Some ''2025-07-25'')
     \<lparr>adults = 2, students = 0, children = []\<rparr> ECONOMY CHEAPEST
     (Some (FlightFilters_default\<lparr>max_price := Some 6000\<rparr>))
   = Inr (base @ ''/YYZ-HKG/2025-07-01/2025-07-25/2adults/economy?sort=price_a&fs=price=-6000'')"
  by (simp add: FlightPassengers_init_def generate_search_url_def match_defs truthy_def
      passengers_to_url_string_def filters_to_url_string_def FlightFilters_default_def
      int_part_def airlines_part_def str_int_6000 str_int_2)

lemma child_counts_gen:
  "distinct (map fst d) \<Longrightarrow>
   distinct (map fst (foldl count_child d cs)) \<and>
   fst ` set (foldl count_child d cs) = fst ` set d \<union> set cs \<and>
   (\<forall>c. map_of (foldl count_child d cs) c =
      (if c \<in> fst ` set d \<union> set cs
       then Some ((case map_of d c of None \<Rightarrow> 0 | Some n \<Rightarrow> n) + int (count_list cs c)) else None))"
proof (induction cs arbitrary: d)
  case Nil
  then show ?case by (auto simp: map_of_eq_None_iff split: option.splits)  
next
  case (Cons a cs)
  have d1: "distinct (map fst (count_child d a))"
    using Cons.prems by (simp add: count_child_def AList.distinct_update)
  have k: "fst ` set (count_child d a) = insert a (fst ` set d)"
    by (simp add: count_child_def AList.dom_update)
  have m: "map_of (count_child d a) = (map_of d)(a \<mapsto> (case map_of d a of None \<Rightarrow> 0 | Some n \<Rightarrow> n) + 1)"
    by (simp add: count_child_def AList.update_conv')
  from Cons.IH[OF d1] show ?case
    by (auto simp: k m)
qed

lemma child_counts_props:
  "distinct (map fst (child_counts cs))"
  "fst ` set (child_counts cs) = set cs"
  "map_of (child_counts cs) c = (if c \<in> set cs then Some (int (count_list cs c)) else None)"
  using child_counts_gen[of "[]" cs] by (simp_all add: child_counts_def)

lemma inj_ChildType_value: "inj ChildType_value"
  by (rule injI) (case_tac x; case_tac y; simp)

lemma set_code_order: "set code_order = UNIV"
  by (auto simp: code_order_def) (metis ChildType.exhaust)

lemma sorted_child_counts:
  "sort_key (\<lambda>x. ChildType_value (fst x)) (child_counts cs) =
   map (\<lambda>c. (c, int (count_list cs c))) (filter (\<lambda>c. c \<in> set cs) code_order)"
  (is "?L = ?T")
proof -
  let ?f = "\<lambda>x::ChildType \<times> int. ChildType_value (fst x)"
  have mem: "x \<in> set (child_counts cs) \<longleftrightarrow> fst x \<in> set cs \<and> snd x = int (count_list cs (fst x))" for x
  proof -
    have "x \<in> set (child_counts cs) \<longleftrightarrow> map_of (child_counts cs) (fst x) = Some (snd x)"
      using child_counts_props(1)[of cs] by (cases x) (auto)
    then show ?thesis by (auto simp: child_counts_props(3))
  qed
  have setT: "set ?T = set (child_counts cs)"
    using mem by (auto simp: set_code_order image_iff) 
  have dT: "distinct (map ?f ?T)"
    by (simp add: distinct_map comp_def code_order_def inj_on_def) 
  have sT: "sorted (map ?f ?T)"
  proof -
    have "map ?f ?T = map ChildType_value (filter (\<lambda>c. c \<in> set cs) code_order)" by (simp add: comp_def)
    moreover have "sorted (map ChildType_value (filter (\<lambda>c. c \<in> set cs) code_order))"
      by (simp add: code_order_def)
    ultimately show ?thesis by (simp only:)
  qed
  have injd: "inj_on ?f (set (child_counts cs))"
    by (rule inj_onI) (auto simp: mem prod_eq_iff dest: injD[OF inj_ChildType_value])
  have dL: "distinct (map ?f ?L)"
    using child_counts_props(1)[of cs] injd
    by (simp add: distinct_map)
  have sets: "set (map ?f ?L) = set (map ?f ?T)"
    using setT by (simp only: set_map set_sort)
  have "map ?f ?L = map ?f ?T"
    by (rule sorted_distinct_set_unique[OF _ dL sT dT sets]) simp
  moreover have "inj_on ?f (set ?L \<union> set ?T)"
    using injd setT by simp
  ultimately show ?thesis
    by (rule map_inj_on)
qed

lemma child_str_eq:
  "child_str cs =
     join ''-'' (map (\<lambda>c. if count_list cs c > 1
                          then str_int (int (count_list cs c)) @ ChildType_value c
                          else ChildType_value c)
                    (filter (\<lambda>c. c \<in> set cs) code_order))"
  by (simp add: child_str_def sorted_child_counts comp_def child_token_def cong: if_cong)

lemma child_str_perm: 
  assumes "mset cs' = mset cs"
  shows "child_str cs' = child_str cs"
proof -
  have "set cs' = set cs" using assms by (rule mset_eq_setD)
  moreover have "count_list cs' = count_list cs"
    using assms by (metis count_mset ext)
  ultimately show ?thesis by (simp add: child_str_eq cong: if_cong)
qed

text \<open>
  Claim C7. When the passengers include children, the passenger segment ends with
  \<open>children-\<close> followed by the codes of the child types that occur, in the lexicographic
  order of the codes (\<open>code_order\<close>, which is sorted and without repetition), each code
  prefixed by its count only when the count exceeds 1, joined with \<open>-\<close>. The segment does
  not depend on the order of the input list: a permutation of the children gives the same
  segment.
\<close>

theorem C7_children_sorted_by_code:
  assumes "children p \<noteq> []"
  shows "passengers_to_url_string p =
           join ''-''
             ((if adults p > 0 then [str_int (adults p) @ ''adults''] else []) @
              (if students p > 0 then [str_int (students p) @ ''students''] else []) @
              [''children-'' @
                 join ''-'' (map (\<lambda>c. if count_list (children p) c > 1
                                      then str_int (int (count_list (children p) c)) @ ChildType_value c
                                      else ChildType_value c)
                                (filter (\<lambda>c. c \<in> set (children p)) code_order))])
         \<and> sorted (map ChildType_value code_order)
         \<and> distinct (map ChildType_value code_order)
         \<and> (\<forall>cs'. mset cs' = mset (children p) \<longrightarrow>
               passengers_to_url_string (p\<lparr>children := cs'\<rparr>) = passengers_to_url_string p)"
proof -
  have perm: "passengers_to_url_string (p\<lparr>children := cs'\<rparr>) = passengers_to_url_string p"
    if "mset cs' = mset (children p)" for cs'
  proof -
    have "cs' \<noteq> []" using that assms by auto
    then show ?thesis
      using assms child_str_perm[OF that] by (simp add: passengers_to_url_string_def)
  qed
  have "sorted (map ChildType_value code_order)" "distinct (map ChildType_value code_order)"
    by (simp_all add: code_order_def)
  moreover have "passengers_to_url_string p =
           join ''-''
             ((if adults p > 0 then [str_int (adults p) @ ''adults''] else []) @
              (if students p > 0 then [str_int (students p) @ ''students''] else []) @
              [''children-'' @
                 join ''-'' (map (\<lambda>c. if count_list (children p) c > 1
                                      then str_int (int (count_list (children p) c)) @ ChildType_value c
                                      else ChildType_value c)
                                (filter (\<lambda>c. c \<in> set (children p)) code_order))])"
    using assms by (simp add: passengers_to_url_string_def child_str_eq)
  ultimately show ?thesis using perm by blast
qed

text \<open>
  The example of the claim: two adults with the children \<open>[INFANT_LAP, CHILD]\<close> give
  \<open>2adults-children-11-1L\<close>, and so does the list in the other order.
\<close>

theorem C7_children_sorted_by_code_witness:
  "children \<lparr>adults = 2, students = 0, children = [INFANT_LAP, CHILD]\<rparr> \<noteq> [] \<and>
   passengers_to_url_string \<lparr>adults = 2, students = 0, children = [INFANT_LAP, CHILD]\<rparr>
     = ''2adults-children-11-1L'' \<and>
   passengers_to_url_string \<lparr>adults = 2, students = 0, children = [CHILD, INFANT_LAP]\<rparr>
     = ''2adults-children-11-1L''"
proof -
  let ?p = "\<lparr>adults = 2, students = 0, children = [INFANT_LAP, CHILD]\<rparr>"
  have ne: "children ?p \<noteq> []" by simp
  note t = C7_children_sorted_by_code[OF ne]
  have a: "passengers_to_url_string ?p = ''2adults-children-11-1L''"
    using t by (simp add: code_order_def str_int_2)
  have "mset [CHILD, INFANT_LAP] = mset (children ?p)" by simp
  with t have "passengers_to_url_string (?p\<lparr>children := [CHILD, INFANT_LAP]\<rparr>) = passengers_to_url_string ?p"
    by blast
  with a ne show ?thesis by simp
qed


lemma str_int_1: "str_int 1 = ''1''"
  by (simp add: str_int_def str_nat.simps digit_char_def)

lemma int_part_eq:
  "int_part field bad msg key parts =
     (if (case field of None \<Rightarrow> False | Some v \<Rightarrow> bad v) then Inl (ValueError msg)
      else Inr (parts @ (case field of None \<Rightarrow> [] | Some v \<Rightarrow> [key @ str_int v])))"
  by (cases field) (simp_all add: int_part_def)

lemma airlines_part_eq:
  "airlines_part field msg key parts =
     (if (case field of None \<Rightarrow> False | Some cs \<Rightarrow> \<not> list_all match_airline cs)
      then Inl (ValueError msg)
      else Inr (parts @ (case field of None \<Rightarrow> []
                         | Some cs \<Rightarrow> if cs = [] then [] else [key @ join '','' cs])))"
  by (cases field) (auto simp: airlines_part_def)

lemma filters_to_url_string_eq:
  "filters_to_url_string f =
    (if (case carry_on_free f of None \<Rightarrow> False | Some v \<Rightarrow> v < 0)
       then Inl (ValueError ''Carry-on bags cannot be negative'')
     else if (case checked_bags_free f of None \<Rightarrow> False | Some v \<Rightarrow> v < 0)
       then Inl (ValueError ''Checked bags cannot be negative'')
     else if (case FlightFilters.stops f of None \<Rightarrow> False | Some v \<Rightarrow> v < 0)
       then Inl (ValueError ''Stops cannot be negative'')
     else if (case max_price f of None \<Rightarrow> False | Some v \<Rightarrow> v \<le> 0)
       then Inl (ValueError ''Max price must be positive'')
     else if (case include_airlines f of None \<Rightarrow> False | Some cs \<Rightarrow> \<not> list_all match_airline cs)
       then Inl (ValueError ''Invalid airline codes in include_airlines'')
     else if (case exclude_airlines f of None \<Rightarrow> False | Some cs \<Rightarrow> \<not> list_all match_airline cs)
       then Inl (ValueError ''Invalid airline codes in exclude_airlines'')
     else Inr (join '';'' (spec_filter_tokens f)))"
  unfolding filters_to_url_string_def spec_filter_tokens_def int_part_eq airlines_part_eq Let_def
  by (cases "alliance f") simp_all

lemma default_filters_empty: "filters_to_url_string FlightFilters_default = Inr []"
  by (simp add: filters_to_url_string_eq spec_filter_tokens_def FlightFilters_default_def)

lemma url_without_filters:
  "generate_search_url B d a dd rd p pt so None = Inr url \<Longrightarrow>
   url = B @ ''/'' @ join ''/'' ([d @ ''-'' @ a, dd] @ (if truthy rd then [the rd] else [])
            @ [passengers_to_url_string p, PlaneType_value pt])
         @ ''?sort='' @ SortOption_value so"
  by (auto simp: generate_search_url_def Let_def split: if_splits)

text \<open>
  Claim C8, as amended. \<open>FlightFilters.to_url_string\<close> checks the fields in their order and
  raises \<open>ValueError\<close> at the first one that fails its check: a negative count of carry-on
  bags, of checked bags or of stops, a maximal price that is not positive, an airline code
  that does not match \<open>^[A-Z0-9]{2}$\<close>. For every other value the segment is the
  semicolon-join of exactly the tokens of the fields that are set, in the fixed order
  \<open>cfc\<close>, \<open>bfc\<close>, \<open>stops\<close>, \<open>price=-\<close>, \<open>alliance\<close>, \<open>airlines=\<close> (include),
  \<open>airlines=-\<close> (exclude), \<open>wifi=wifi\<close> (\<open>spec_filter_tokens\<close>: a set of airline codes
  gives its token when it is not empty, and both tokens appear when both sets are given).
  With every field at its default the segment is empty, and the URL is the one built without
  filters: its query is \<open>sort=\<close> and the sort value, with no \<open>fs=\<close> parameter.
\<close>

theorem C8_filter_segment:
  "filters_to_url_string f =
    (if (case carry_on_free f of None \<Rightarrow> False | Some v \<Rightarrow> v < 0)
       then Inl (ValueError ''Carry-on bags cannot be negative'')
     else if (case checked_bags_free f of None \<Rightarrow> False | Some v \<Rightarrow> v < 0)
       then Inl (ValueError ''Checked bags cannot be negative'')
     else if (case FlightFilters.stops f of None \<Rightarrow> False | Some v \<Rightarrow> v < 0)
       then Inl (ValueError ''Stops cannot be negative'')
     else if (case max_price f of None \<Rightarrow> False | Some v \<Rightarrow> v \<le> 0)
       then Inl (ValueError ''Max price must be positive'')
     else if (case include_airlines f of None \<Rightarrow> False | Some cs \<Rightarrow> \<not> list_all match_airline cs)
       then Inl (ValueError ''Invalid airline codes in include_airlines'')
     else if (case exclude_airlines f of None \<Rightarrow> False | Some cs \<Rightarrow> \<not> list_all match_airline cs)
       then Inl (ValueError ''Invalid airline codes in exclude_airlines'')
     else Inr (join '';'' (spec_filter_tokens f)))
   \<and> filters_to_url_string FlightFilters_default = Inr []
   \<and> generate_search_url B d a dd rd p pt so (Some FlightFilters_default)
       = generate_search_url B d a dd rd p pt so None
   \<and> (\<forall>url. generate_search_url B d a dd rd p pt so None = Inr url \<longrightarrow>
         url = B @ ''/'' @ join ''/'' ([d @ ''-'' @ a, dd] @ (if truthy rd then [the rd] else [])
                  @ [passengers_to_url_string p, PlaneType_value pt])
               @ ''?sort='' @ SortOption_value so)"
proof -
  have "generate_search_url B d a dd rd p pt so (Some FlightFilters_default)
        = generate_search_url B d a dd rd p pt so None"
    by (simp add: generate_search_url_def default_filters_empty)
  then show ?thesis
    using filters_to_url_string_eq[of f] default_filters_empty url_without_filters[of B d a dd rd p pt so]
    by blast
qed

text \<open>
  A filter value with six fields set, the two airline sets among them, and the URL for the
  default filters.
\<close>

theorem C8_filter_segment_witness:
  "filters_to_url_string
     \<lparr>carry_on_free = Some 1, checked_bags_free = None, stops = None, max_price = Some 6000,
      alliance = Some STAR_ALLIANCE, include_airlines = Some [''AC'', ''UA''],
      exclude_airlines = Some [''NK''], wifi_only = True\<rparr>
   = Inr ''cfc=1;price=-6000;alliance=STAR_ALLIANCE;airlines=AC,UA;airlines=-NK;wifi=wifi'' \<and>
   generate_search_url ''https://www.ca.kayak.com/flights'' ''YYZ'' ''HKG'' ''2025-07-01'' None
     \<lparr>adults = 2, students = 0, children = []\<rparr> ECONOMY CHEAPEST (Some FlightFilters_default)
   = Inr ''https://www.ca.kayak.com/flights/YYZ-HKG/2025-07-01/2adults/economy?sort=price_a''"
proof -
  let ?f = "\<lparr>carry_on_free = Some 1, checked_bags_free = None, stops = None, max_price = Some 6000,
      alliance = Some STAR_ALLIANCE, include_airlines = Some [''AC'', ''UA''],
      exclude_airlines = Some [''NK''], wifi_only = True\<rparr>"
  let ?p = "\<lparr>adults = 2, students = 0, children = []\<rparr>"
  note t = C8_filter_segment[of ?f "''https://www.ca.kayak.com/flights''" "''YYZ''" "''HKG''"
      "''2025-07-01''" None ?p ECONOMY CHEAPEST]
  have ok: "generate_search_url ''https://www.ca.kayak.com/flights'' ''YYZ'' ''HKG'' ''2025-07-01'' None
     ?p ECONOMY CHEAPEST None \<noteq> Inl e" for e
    by (simp add: generate_search_url_def match_defs truthy_def)
  then obtain url where u: "generate_search_url ''https://www.ca.kayak.com/flights'' ''YYZ'' ''HKG'' ''2025-07-01'' None
     ?p ECONOMY CHEAPEST None = Inr url"
    by (metis sum.exhaust)
  from t u have "url = ''https://www.ca.kayak.com/flights/YYZ-HKG/2025-07-01/2adults/economy?sort=price_a''"
    by (simp add: truthy_def passengers_to_url_string_def str_int_2)
  moreover from t have "filters_to_url_string ?f
     = Inr ''cfc=1;price=-6000;alliance=STAR_ALLIANCE;airlines=AC,UA;airlines=-NK;wifi=wifi''"
    by (simp add: spec_filter_tokens_def match_defs str_int_1 str_int_6000)
  ultimately show ?thesis using t u by simp
qed

text \<open>
  Claim C8 as stated fails for a value that does not pass the checks: with \<open>carry_on_free\<close>
  set to \<open>-1\<close> the tokens of the set fields are \<open>cfc=-1\<close>, and the method raises instead of
  returning a segment.
\<close>

theorem C8_counterexample:
  "filters_to_url_string (FlightFilters_default\<lparr>carry_on_free := Some (- 1)\<rparr>)
     = Inl (ValueError ''Carry-on bags cannot be negative'') \<and>
   spec_filter_tokens (FlightFilters_default\<lparr>carry_on_free := Some (- 1)\<rparr>) = [''cfc=-1'']"
  by (simp add: filters_to_url_string_def int_part_def spec_filter_tokens_def
      FlightFilters_default_def str_int_def str_nat.simps digit_char_def)

section \<open>The leg parser\<close>

lemmas dom_defs = query_selector_def query_selector_all_def get_attribute_def

lemma parse_flight_leg_empty:
  assumes "\<forall>sel. query_selector_all e sel = []"
  shows "parse_flight_leg (Some e) = Inr (LegDict sentinel_leg)"
  using assms
  by (simp add: parse_flight_leg_def query_selector_def text_at_def sentinel_leg_def na_airport_def)

text \<open>
  Claim C1, as amended. For a missing leg subtree (\<open>None\<close>) the leg parser returns the empty
  dict, without raising. For a leg subtree that is there and empty (no selector selects
  anything in it) it returns, without raising, the leg with every field at its sentinel
  default.
\<close>

theorem C1_missing_or_empty_leg:
  "parse_flight_leg None = Inr EmptyDict \<and>
   ((\<forall>sel. query_selector_all e sel = []) \<longrightarrow>
      parse_flight_leg (Some e) = Inr (LegDict sentinel_leg))"
  using parse_flight_leg_empty[of e] by (simp add: parse_flight_leg_def)

theorem C1_missing_or_empty_leg_witness:
  "(\<forall>sel. query_selector_all (Elem [] [] []) sel = []) \<and>
   parse_flight_leg (Some (Elem [] [] [])) = Inr (LegDict sentinel_leg)"
proof -
  have "\<forall>sel. query_selector_all (Elem [] [] []) sel = []"
    by (simp add: query_selector_all_def)
  with C1_missing_or_empty_leg[of "Elem [] [] []"] show ?thesis by blast
qed

text \<open>
  Claim C1 as stated fails for the missing subtree: the result is the empty dict, which is
  not the dict of the sentinel defaults.
\<close>

theorem C1_counterexample:
  "parse_flight_leg None = Inr EmptyDict \<and> parse_flight_leg None \<noteq> Inr (LegDict sentinel_leg)"
  by (simp add: parse_flight_leg_def)

text \<open>
  The stop count in all its cases. The first token of the text is the count when it consists
  of ASCII digits; a text without a token makes \<open>split()[0]\<close> raise \<open>IndexError\<close>; a first
  token of digits that are not all ASCII makes \<open>int\<close> raise \<open>ValueError\<close>; every other text,
  the text \<open>direct\<close> among them, and the missing element give 0.
\<close>

lemma extract_stops_cases:
  "extract_stops e =
     (case query_selector e ''.JWEO-stops-text'' of
        None \<Rightarrow> Inr 0
      | Some se \<Rightarrow>
          (case split_ws (inner_text se) of
             [] \<Rightarrow> Inl (IndexError ''list index out of range'')
           | tok # _ \<Rightarrow>
               if list_all is_ascii_digit tok then Inr (digits_val tok)
               else if py_isdigit tok
                 then Inl (ValueError (''invalid literal for int() with base 10: ''
                                       @ [CHR 0x27] @ tok @ [CHR 0x27]))
               else Inr 0))"
proof -
  have ne: "tok \<noteq> []" if "split_ws s = tok # rest" for s tok rest
  proof -
    have "[] \<notin> set (split_ws_aux cur t) \<or> False" for cur t
      by (induction cur t rule: split_ws_aux.induct) auto
    then show ?thesis using that unfolding split_ws_def by (metis list.set_intros(1))
  qed
  show ?thesis
    by (auto simp: extract_stops_def first_item_def py_int_def py_isdigit_def list_all_iff
        is_digit_char_def dest: ne split: option.splits list.splits)
qed

text \<open>
  Claim C2 fails on the code. A leg whose stops element has an empty text makes the leg
  parser raise \<open>IndexError\<close> (\<open>inner_text().split()[0]\<close> on a text without a token) instead of
  giving the count 0.
\<close>

theorem C2_empty_stops_text_raises:
  "extract_stops (example_leg []) = Inl (IndexError ''list index out of range'') \<and>
   parse_flight_leg (Some (example_leg [])) = Inl (IndexError ''list index out of range'')"
  by (simp add: parse_flight_leg_def extract_stops_def example_leg_def dom_defs split_ws_def
      first_item_def)

subsection \<open>Stop details\<close>

lemma dedup_stops_first:
  "d \<in> set (dedup_stops seen ds) \<Longrightarrow>
   airportCode d \<notin> seen \<and> find (\<lambda>x. airportCode x = airportCode d) ds = Some d"
proof (induction ds arbitrary: seen)
  case Nil
  then show ?case by simp
next
  case (Cons d0 ds)
  show ?case
  proof (cases "airportCode d0 \<in> seen")
    case True
    with Cons.prems have "d \<in> set (dedup_stops seen ds)" by simp
    from Cons.IH[OF this] True show ?thesis by auto
  next
    case False
    with Cons.prems have "d = d0 \<or> d \<in> set (dedup_stops (insert (airportCode d0) seen) ds)"
      by simp
    then show ?thesis
    proof
      assume "d = d0"
      with False show ?thesis by simp
    next
      assume "d \<in> set (dedup_stops (insert (airportCode d0) seen) ds)"
      from Cons.IH[OF this] show ?thesis by auto
    qed
  qed
qed

lemma dedup_stops_codes:
  "set (map airportCode (dedup_stops seen ds)) = set (map airportCode ds) - seen"
  by (induction ds arbitrary: seen) auto

lemma dedup_stops_distinct: "distinct (map airportCode (dedup_stops seen ds))"
proof (induction ds arbitrary: seen)
  case Nil
  then show ?case by simp
next
  case (Cons d0 ds)
  have "airportCode d0 \<notin> set (map airportCode (dedup_stops (insert (airportCode d0) seen) ds))"
    unfolding dedup_stops_codes by simp
  with Cons.IH show ?case by simp
qed

lemma dedup_stops_subseq: "subseq (dedup_stops seen ds) ds"
  by (induction ds arbitrary: seen) auto

lemma dedup_stops_set: "set (dedup_stops seen ds) \<subseteq> set ds"
  by (induction ds arbitrary: seen) auto

lemma parse_stop_Some:
  assumes "parse_stop dep arr m = Some d"
  shows "airportCode d \<noteq> code dep \<and> airportCode d \<noteq> code arr \<and>
         (\<exists>h. query_selector m ''.hEI8'' = Some h \<and>
              layoverDuration d = (case layover_search (inner_text h) of
                                     None \<Rightarrow> ''N/A'' | Some g \<Rightarrow> g))"
  using assms
  by (auto simp: parse_stop_def Let_def split: option.splits if_splits)

lemma parse_stop_iff:
  "parse_stop dep arr m = Some d \<longleftrightarrow>
     (\<exists>ce h. query_selector m ''span'' = Some ce
        \<and> match_airport (take 3 (inner_text ce))
        \<and> take 3 (inner_text ce) \<noteq> code dep \<and> take 3 (inner_text ce) \<noteq> code arr
        \<and> query_selector m ''.hEI8'' = Some h
        \<and> d = \<lparr>airportCode = take 3 (inner_text ce),
                 airportName = (case query_selector h ''.AFFP'' of
                                  None \<Rightarrow> ''N/A'' | Some n \<Rightarrow> inner_text n),
                 layoverDuration = (case layover_search (inner_text h) of
                                      None \<Rightarrow> ''N/A'' | Some g \<Rightarrow> g)\<rparr>)"
  by (auto simp: parse_stop_def Let_def split: option.splits if_splits)

lemma is_digit_takeWhile: "list_all is_ascii_digit (takeWhile is_ascii_digit s)"
  by (induction s) auto

lemma layover_at_Some:
  assumes "layover_at s = Some g"
  shows "\<exists>a b post. a \<noteq> [] \<and> b \<noteq> [] \<and> list_all is_ascii_digit a \<and> list_all is_ascii_digit b
           \<and> g = a @ ''h '' @ b @ ''m'' \<and> s = g @ '' layover'' @ post"
proof -
  define a where "a = takeWhile is_ascii_digit s"
  define r1 where "r1 = dropWhile is_ascii_digit s"
  define b where "b = takeWhile is_ascii_digit (drop 2 r1)"
  define r2 where "r2 = dropWhile is_ascii_digit (drop 2 r1)"
  from assms have c: "a \<noteq> []" "take 2 r1 = ''h ''" "b \<noteq> []" "take 9 r2 = ''m layover''"
    and g: "g = a @ ''h '' @ b @ ''m''"
    by (auto simp: layover_at_def Let_def a_def r1_def b_def r2_def split: if_splits)
  have "s = a @ r1" by (simp add: a_def r1_def)
  also have "r1 = take 2 r1 @ drop 2 r1" by simp
  also have "drop 2 r1 = b @ r2" by (simp add: b_def r2_def)
  also have "r2 = take 9 r2 @ drop 9 r2" by simp
  finally have "s = a @ ''h '' @ b @ ''m layover'' @ drop 9 r2"
    using c by simp
  then have "s = g @ '' layover'' @ drop 9 r2" using g by simp
  moreover have "list_all is_ascii_digit a" "list_all is_ascii_digit b"
    by (simp_all add: a_def b_def is_digit_takeWhile)
  ultimately show ?thesis using c g by blast
qed

lemma layover_search_Some:
  "layover_search t = Some g \<Longrightarrow> \<exists>pre s. t = pre @ s \<and> layover_at s = Some g"
proof (induction t)
  case Nil
  then show ?case by simp
next
  case (Cons c cs)
  show ?case
  proof (cases "layover_at (c # cs)")
    case None
    with Cons.prems have "layover_search cs = Some g" by simp
    from Cons.IH[OF this] obtain pre s where "cs = pre @ s" "layover_at s = Some g" by blast
    then have "c # cs = (c # pre) @ s \<and> layover_at s = Some g" by simp
    then show ?thesis by blast
  next
    case (Some g')
    with Cons.prems have "g' = g" by simp
    with Some have "c # cs = [] @ (c # cs) \<and> layover_at (c # cs) = Some g" by simp
    then show ?thesis by blast
  qed
qed

lemma layover_search_None:
  "layover_search t = None \<Longrightarrow> t = pre @ s \<Longrightarrow> s \<noteq> [] \<Longrightarrow> layover_at s = None"
proof (induction t arbitrary: pre)
  case Nil
  then show ?case by simp
next
  case (Cons c cs)
  from Cons.prems(1) have here: "layover_at (c # cs) = None" and rest: "layover_search cs = None"
    by (auto split: option.splits)
  show ?case
  proof (cases pre)
    case Nil
    with Cons.prems(2) here show ?thesis by simp
  next
    case (Cons p pre')
    with Cons.prems(2) have "cs = pre' @ s" by simp
    from Cons.IH[OF rest this Cons.prems(3)] show ?thesis .
  qed
qed

lemma takeWhile_digits_h:
  assumes "list_all is_ascii_digit a"
  shows "takeWhile is_ascii_digit (a @ CHR ''h'' # r) = a"
    and "dropWhile is_ascii_digit (a @ CHR ''h'' # r) = CHR ''h'' # r"
  using assms by (induction a) (auto simp: is_ascii_digit_def)

lemma takeWhile_digits_m:
  assumes "list_all is_ascii_digit a"
  shows "takeWhile is_ascii_digit (a @ CHR ''m'' # r) = a"
    and "dropWhile is_ascii_digit (a @ CHR ''m'' # r) = CHR ''m'' # r"
  using assms by (induction a) (auto simp: is_ascii_digit_def)

lemma layover_at_match:
  assumes "a \<noteq> []" "b \<noteq> []" "list_all is_ascii_digit a" "list_all is_ascii_digit b"
  shows "layover_at (a @ ''h '' @ b @ ''m layover'' @ post) = Some (a @ ''h '' @ b @ ''m'')"
  using assms
  by (simp add: layover_at_def Let_def takeWhile_digits_h takeWhile_digits_m)

lemma layover_search_complete:
  assumes "layover_search t = None"
  shows "\<not> (\<exists>a b pre post. a \<noteq> [] \<and> b \<noteq> [] \<and> list_all is_ascii_digit a \<and> list_all is_ascii_digit b
             \<and> t = pre @ a @ ''h '' @ b @ ''m layover'' @ post)"
proof
  assume "\<exists>a b pre post. a \<noteq> [] \<and> b \<noteq> [] \<and> list_all is_ascii_digit a \<and> list_all is_ascii_digit b
             \<and> t = pre @ a @ ''h '' @ b @ ''m layover'' @ post"
  then obtain a b pre post where ab: "a \<noteq> []" "b \<noteq> []" "list_all is_ascii_digit a"
      "list_all is_ascii_digit b" and t: "t = pre @ (a @ ''h '' @ b @ ''m layover'' @ post)"
    by auto
  have "a @ ''h '' @ b @ ''m layover'' @ post \<noteq> []" using ab by simp
  from layover_search_None[OF assms t this] layover_at_match[OF ab] show False by simp
qed

lemma layover_search_sound:
  assumes "layover_search t = Some g"
  shows "\<exists>a b pre post. a \<noteq> [] \<and> b \<noteq> [] \<and> list_all is_ascii_digit a \<and> list_all is_ascii_digit b
           \<and> g = a @ ''h '' @ b @ ''m'' \<and> t = pre @ g @ '' layover'' @ post"
proof -
  from layover_search_Some[OF assms] obtain pre s where "t = pre @ s" "layover_at s = Some g"
    by blast
  with layover_at_Some[of s g] show ?thesis by blast
qed


lemma parse_flight_leg_stop_details:
  assumes "parse_flight_leg (Some e) = Inr (LegDict l)" and "stops l > 0"
  shows "stopDetails l =
           dedup_stops {} (List.map_filter (parse_stop (departureAirport l) (arrivalAirport l))
                             (query_selector_all e stop_sel))"
  using assms
  by (auto simp: parse_flight_leg_def Let_def extract_stop_details_def stop_sel_def
      split: option.splits sum.splits if_splits)

text \<open>
  Claim C9, as amended. For a leg that the parser returns with a positive stop count:
  no stop detail has the code of the leg's departure or arrival airport; no two stop details
  have the same code; the stop details are, in the order of the page, the first of the
  candidates with each code. The candidates are the results of the stop markers that pass
  the checks of the loop, and only of these: the marker has a code element, the first three
  characters of its text are three upper-case letters and differ from the codes of the
  leg's departure and arrival airports, and the marker has an element \<open>.hEI8\<close>; a marker
  that fails a check is skipped and is not an occurrence of its code. The layover duration
  of a stop detail is group 1 of the search for \<open>(\d+h \d+m) layover\<close> in the text of its
  marker, and \<open>N/A\<close> when the search fails. The search finds only text of the form digits,
  \<open>h\<close>, space, digits, \<open>m\<close> that is followed by \<open> layover\<close>, and it fails only when the
  text has no such part.
\<close>

theorem C9_stop_details:
  assumes "parse_flight_leg (Some e) = Inr (LegDict l)" and "stops l > 0"
  shows "(\<forall>d \<in> set (stopDetails l).
            airportCode d \<noteq> code (departureAirport l) \<and> airportCode d \<noteq> code (arrivalAirport l))
       \<and> distinct (map airportCode (stopDetails l))
       \<and> subseq (stopDetails l)
            (List.map_filter (parse_stop (departureAirport l) (arrivalAirport l))
               (query_selector_all e stop_sel))
       \<and> set (map airportCode (stopDetails l)) =
           set (map airportCode
                  (List.map_filter (parse_stop (departureAirport l) (arrivalAirport l))
                     (query_selector_all e stop_sel)))
       \<and> (\<forall>d \<in> set (stopDetails l).
            find (\<lambda>x. airportCode x = airportCode d)
              (List.map_filter (parse_stop (departureAirport l) (arrivalAirport l))
                 (query_selector_all e stop_sel)) = Some d)
       \<and> (\<forall>m d. parse_stop (departureAirport l) (arrivalAirport l) m = Some d \<longleftrightarrow>
            (\<exists>ce h. query_selector m ''span'' = Some ce
               \<and> match_airport (take 3 (inner_text ce))
               \<and> take 3 (inner_text ce) \<noteq> code (departureAirport l)
               \<and> take 3 (inner_text ce) \<noteq> code (arrivalAirport l)
               \<and> query_selector m ''.hEI8'' = Some h
               \<and> d = \<lparr>airportCode = take 3 (inner_text ce),
                        airportName = (case query_selector h ''.AFFP'' of
                                         None \<Rightarrow> ''N/A'' | Some n \<Rightarrow> inner_text n),
                        layoverDuration = (case layover_search (inner_text h) of
                                             None \<Rightarrow> ''N/A'' | Some g \<Rightarrow> g)\<rparr>))
       \<and> (\<forall>d \<in> set (stopDetails l). \<exists>m \<in> set (query_selector_all e stop_sel). \<exists>h.
            query_selector m ''.hEI8'' = Some h \<and>
            layoverDuration d = (case layover_search (inner_text h) of
                                   None \<Rightarrow> ''N/A'' | Some g \<Rightarrow> g))
       \<and> (\<forall>t g. layover_search t = Some g \<longrightarrow>
            (\<exists>a b pre post. a \<noteq> [] \<and> b \<noteq> [] \<and> list_all is_ascii_digit a
               \<and> list_all is_ascii_digit b \<and> g = a @ ''h '' @ b @ ''m''
               \<and> t = pre @ g @ '' layover'' @ post))
       \<and> (\<forall>t. layover_search t = None \<longrightarrow>
            \<not> (\<exists>a b pre post. a \<noteq> [] \<and> b \<noteq> [] \<and> list_all is_ascii_digit a
                  \<and> list_all is_ascii_digit b
                  \<and> t = pre @ a @ ''h '' @ b @ ''m layover'' @ post))"
proof -
  let ?cands = "List.map_filter (parse_stop (departureAirport l) (arrivalAirport l))
                  (query_selector_all e stop_sel)"
  have sd: "stopDetails l = dedup_stops {} ?cands"
    using assms by (rule parse_flight_leg_stop_details)
  have cand: "\<exists>m \<in> set (query_selector_all e stop_sel).
                parse_stop (departureAirport l) (arrivalAirport l) m = Some d"
    if "d \<in> set (stopDetails l)" for d
  proof -
    have "d \<in> set ?cands"
      using that set_mp[OF dedup_stops_set[of "{}" ?cands]] sd by auto
    then show ?thesis by (auto simp: List.map_filter_def)
  qed
  have 1: "\<forall>d \<in> set (stopDetails l).
            airportCode d \<noteq> code (departureAirport l) \<and> airportCode d \<noteq> code (arrivalAirport l)"
    using cand parse_stop_Some by blast
  have 2: "distinct (map airportCode (stopDetails l))"
    unfolding sd by (rule dedup_stops_distinct)
  have 3: "subseq (stopDetails l) ?cands"
    unfolding sd by (rule dedup_stops_subseq)
  have 4: "set (map airportCode (stopDetails l)) = set (map airportCode ?cands)"
    unfolding sd dedup_stops_codes by simp
  have 5: "\<forall>d \<in> set (stopDetails l). find (\<lambda>x. airportCode x = airportCode d) ?cands = Some d"
    unfolding sd using dedup_stops_first by blast
  have 6: "\<forall>d \<in> set (stopDetails l). \<exists>m \<in> set (query_selector_all e stop_sel). \<exists>h.
            query_selector m ''.hEI8'' = Some h \<and>
            layoverDuration d = (case layover_search (inner_text h) of
                                   None \<Rightarrow> ''N/A'' | Some g \<Rightarrow> g)"
  proof
    fix d assume "d \<in> set (stopDetails l)"
    from cand[OF this] obtain m where m: "m \<in> set (query_selector_all e stop_sel)"
      "parse_stop (departureAirport l) (arrivalAirport l) m = Some d" by blast
    from parse_stop_Some[OF m(2)] m(1) show "\<exists>m \<in> set (query_selector_all e stop_sel). \<exists>h.
            query_selector m ''.hEI8'' = Some h \<and>
            layoverDuration d = (case layover_search (inner_text h) of
                                   None \<Rightarrow> ''N/A'' | Some g \<Rightarrow> g)" by blast
  qed
  have 7: "\<forall>m d. parse_stop (departureAirport l) (arrivalAirport l) m = Some d \<longleftrightarrow>
            (\<exists>ce h. query_selector m ''span'' = Some ce
               \<and> match_airport (take 3 (inner_text ce))
               \<and> take 3 (inner_text ce) \<noteq> code (departureAirport l)
               \<and> take 3 (inner_text ce) \<noteq> code (arrivalAirport l)
               \<and> query_selector m ''.hEI8'' = Some h
               \<and> d = \<lparr>airportCode = take 3 (inner_text ce),
                        airportName = (case query_selector h ''.AFFP'' of
                                         None \<Rightarrow> ''N/A'' | Some n \<Rightarrow> inner_text n),
                        layoverDuration = (case layover_search (inner_text h) of
                                             None \<Rightarrow> ''N/A'' | Some g \<Rightarrow> g)\<rparr>)"
    by (intro allI) (rule parse_stop_iff)
  have 8: "\<forall>t g. layover_search t = Some g \<longrightarrow>
            (\<exists>a b pre post. a \<noteq> [] \<and> b \<noteq> [] \<and> list_all is_ascii_digit a
               \<and> list_all is_ascii_digit b \<and> g = a @ ''h '' @ b @ ''m''
               \<and> t = pre @ g @ '' layover'' @ post)"
    using layover_search_sound by blast
  have 9: "\<forall>t. layover_search t = None \<longrightarrow>
            \<not> (\<exists>a b pre post. a \<noteq> [] \<and> b \<noteq> [] \<and> list_all is_ascii_digit a
                  \<and> list_all is_ascii_digit b
                  \<and> t = pre @ a @ ''h '' @ b @ ''m layover'' @ post)"
    using layover_search_complete by blast
  from 1 2 3 4 5 7 6 8 9 show ?thesis by (intro conjI)
qed

lemma example_leg_parse:
  "parse_flight_leg (Some (example_leg ''2 stops'')) = Inr (LegDict example_leg_parsed)"
  by (simp add: parse_flight_leg_def extract_stops_def extract_stop_details_def example_leg_def
      example_leg_parsed_def stop_marker_def dom_defs split_ws_def py_isspace_def first_item_def
      py_isdigit_def is_digit_char_def py_int_def digits_val_def digit_val_def text_at_def
      airport_of_def na_airport_def parse_stop_def List.map_filter_def match_defs layover_at_def)

text \<open>
  A leg with two stops and four markers: the marker of the departure airport and the second
  marker of Vancouver are dropped.
\<close>

theorem C9_stop_details_witness:
  "parse_flight_leg (Some (example_leg ''2 stops'')) = Inr (LegDict example_leg_parsed) \<and>
   stops example_leg_parsed > 0 \<and>
   map airportCode (stopDetails example_leg_parsed) = [''YVR'', ''NRT''] \<and>
   distinct (map airportCode (stopDetails example_leg_parsed)) \<and>
   find (\<lambda>x. airportCode x = ''YVR'')
     (List.map_filter (parse_stop (departureAirport example_leg_parsed)
                                  (arrivalAirport example_leg_parsed))
        (query_selector_all (example_leg ''2 stops'') stop_sel))
   = Some \<lparr>airportCode = ''YVR'', airportName = ''Airport'', layoverDuration = ''2h 30m''\<rparr>"
proof -
  have pos: "stops example_leg_parsed > 0" by (simp add: example_leg_parsed_def)
  note t = C9_stop_details[OF example_leg_parse pos]
  have m: "\<lparr>airportCode = ''YVR'', airportName = ''Airport'', layoverDuration = ''2h 30m''\<rparr>
             \<in> set (stopDetails example_leg_parsed)"
    by (simp add: example_leg_parsed_def)
  from t have "\<forall>d \<in> set (stopDetails example_leg_parsed).
            find (\<lambda>x. airportCode x = airportCode d)
              (List.map_filter (parse_stop (departureAirport example_leg_parsed)
                                  (arrivalAirport example_leg_parsed))
                 (query_selector_all (example_leg ''2 stops'') stop_sel)) = Some d"
    by blast
  from bspec[OF this m] have f: "find (\<lambda>x. airportCode x = ''YVR'')
     (List.map_filter (parse_stop (departureAirport example_leg_parsed)
                                  (arrivalAirport example_leg_parsed))
        (query_selector_all (example_leg ''2 stops'') stop_sel))
   = Some \<lparr>airportCode = ''YVR'', airportName = ''Airport'', layoverDuration = ''2h 30m''\<rparr>"
    by simp
  from t have "distinct (map airportCode (stopDetails example_leg_parsed))" by blast
  moreover have "map airportCode (stopDetails example_leg_parsed) = [''YVR'', ''NRT'']"
    by (simp add: example_leg_parsed_def)
  ultimately show ?thesis using example_leg_parse pos f by blast
qed

lemma two_marker_leg_parse:
  "parse_flight_leg (Some two_marker_leg) = Inr (LegDict two_marker_leg_parsed)"
  by (simp add: parse_flight_leg_def extract_stops_def extract_stop_details_def two_marker_leg_def
      two_marker_leg_parsed_def stop_marker_def bare_marker_def dom_defs split_ws_def
      py_isspace_def first_item_def py_isdigit_def is_digit_char_def py_int_def digits_val_def
      digit_val_def text_at_def airport_of_def na_airport_def parse_stop_def List.map_filter_def
      match_defs layover_at_def)

text \<open>
  Claim C9 as stated fails when the first marker of a code does not pass the checks of the
  loop. The leg has one stop and two markers that report Vancouver; the first marker has no
  element \<open>.hEI8\<close> and is skipped, and the stop detail that is kept is the one of the second
  marker, with its layover of 9h 9m.
\<close>

theorem C9_counterexample:
  "parse_flight_leg (Some two_marker_leg) = Inr (LegDict two_marker_leg_parsed)
   \<and> stops two_marker_leg_parsed > 0
   \<and> query_selector_all two_marker_leg stop_sel
         = [bare_marker ''YVR'', stop_marker ''YVR'' ''9h 9m layover'']
   \<and> map_option inner_text (query_selector (bare_marker ''YVR'') ''span'') = Some ''YVR''
   \<and> query_selector (bare_marker ''YVR'') ''.hEI8'' = None
   \<and> map_option inner_text (query_selector (stop_marker ''YVR'' ''9h 9m layover'') ''span'')
         = Some ''YVR''
   \<and> map_option inner_text (query_selector (stop_marker ''YVR'' ''9h 9m layover'') ''.hEI8'')
         = Some ''9h 9m layover''
   \<and> stopDetails two_marker_leg_parsed
         = [\<lparr>airportCode = ''YVR'', airportName = ''Airport'', layoverDuration = ''9h 9m''\<rparr>]"
proof -
  have "query_selector_all two_marker_leg stop_sel
          = [bare_marker ''YVR'', stop_marker ''YVR'' ''9h 9m layover'']"
    by (simp add: two_marker_leg_def stop_sel_def query_selector_all_def)
  moreover have "stops two_marker_leg_parsed > 0"
    "stopDetails two_marker_leg_parsed
       = [\<lparr>airportCode = ''YVR'', airportName = ''Airport'', layoverDuration = ''9h 9m''\<rparr>]"
    by (simp_all add: two_marker_leg_parsed_def)
  moreover have "map_option inner_text (query_selector (bare_marker ''YVR'') ''span'') = Some ''YVR''"
    "query_selector (bare_marker ''YVR'') ''.hEI8'' = None"
    "map_option inner_text (query_selector (stop_marker ''YVR'' ''9h 9m layover'') ''span'')
       = Some ''YVR''"
    "map_option inner_text (query_selector (stop_marker ''YVR'' ''9h 9m layover'') ''.hEI8'')
       = Some ''9h 9m layover''"
    by (simp_all add: bare_marker_def stop_marker_def dom_defs)
  ultimately show ?thesis using two_marker_leg_parse by simp
qed

section \<open>The orchestrator\<close>

subsection \<open>Pagination\<close>





lemma fixed_page_materialized:
  "materialized (fixed_page_browser results_page w) s
     = [plain_card ''C$ 1,200'', ad_card, plain_card ''C$ 1,500'']"
  by (simp add: materialized_def fixed_page_browser_def results_page_def query_selector_all_def)




lemma flickering_reads:
  "materialized flickering_browser 0 = [plain_card ''C$ 1,200'', ad_card, plain_card ''C$ 1,500'']"
  "materialized flickering_browser (Suc 0)
     = [plain_card ''C$ 1,200'', ad_card, plain_card ''C$ 1,500'', plain_card ''C$ 1,700'']"
  "query_selector (page_dom flickering_browser 0) show_more_sel \<noteq> None"
  "page_step flickering_browser s = 0"
  "click_show_more flickering_browser s = (Inr (), Suc 0)"
  by (simp_all add: materialized_def flickering_browser_def fixed_page_browser_def
      results_page_def larger_page_def dom_defs result_sel_def show_more_sel_def)

text \<open>
  On the page whose fourth card comes with the click and goes before the next read, every
  pass below the target goes on to another pass: no run of the loop returns.
\<close>

lemma flickering_never_ends:
  "paginate_run env t c s = Some y \<Longrightarrow>
   env = flickering_browser \<longrightarrow> t = 16 \<longrightarrow> c < 16 \<longrightarrow> False"
  apply (erule paginate_run.raw_induct
           [where P = "\<lambda>env t c s y. env = flickering_browser \<longrightarrow> t = 16 \<longrightarrow> c < 16 \<longrightarrow> False",
            rotated])
  apply (intro impI)
  apply (simp add: flickering_reads materialized_def[symmetric] split: Option.bind_splits)
  apply force
  done

lemma flickering_paginate_run: "paginate_run flickering_browser 16 0 0 = None"
proof (cases "paginate_run flickering_browser 16 0 0")
  case None
  then show ?thesis .
next
  case (Some y)
  from flickering_never_ends[OF this] show ?thesis by simp
qed


subsection \<open>Extraction\<close>

lemma extract_flights_window:
  "extract_flights B st en items acc = Inr fl \<Longrightarrow>
   \<exists>new. fl = acc @ new \<and>
     list_all2 (\<lambda>f x. extract_result B (snd x) = Inr f) new
       (filter (\<lambda>x. st \<le> int (fst x) \<and> int (fst x) \<le> en \<and> \<not> is_advertisement (snd x)) items)"
proof (induction items arbitrary: acc)
  case Nil
  then show ?case by simp
next
  case (Cons x items)
  obtain idx item where x: "x = (idx, item)" by (cases x)
  show ?case
  proof (cases "int idx < st \<or> int idx > en \<or> is_advertisement item")
    case True
    with Cons.prems x have "extract_flights B st en items acc = Inr fl"
      by (auto split: if_splits)
    from Cons.IH[OF this] True x show ?thesis by auto
  next
    case False
    with Cons.prems x obtain r where r: "extract_result B item = Inr r"
      and rest: "extract_flights B st en items (acc @ [r]) = Inr fl"
      by (auto split: sum.splits)
    from Cons.IH[OF rest] obtain new where new: "fl = (acc @ [r]) @ new"
      "list_all2 (\<lambda>f x. extract_result B (snd x) = Inr f) new
         (filter (\<lambda>x. st \<le> int (fst x) \<and> int (fst x) \<le> en \<and> \<not> is_advertisement (snd x)) items)"
      by blast
    have "fl = acc @ (r # new)" using new(1) by simp
    moreover have "list_all2 (\<lambda>f x. extract_result B (snd x) = Inr f) (r # new)
         (filter (\<lambda>x. st \<le> int (fst x) \<and> int (fst x) \<le> en \<and> \<not> is_advertisement (snd x)) (x # items))"
      using False x r new(2) by auto
    ultimately show ?thesis by blast
  qed
qed

lemma window_indices:
  "sorted_wrt (<) (map fst (window st en cards))"
  "\<forall>x \<in> set (window st en cards).
     fst x < length cards \<and> snd x = cards ! fst x \<and> st \<le> int (fst x) \<and> int (fst x) \<le> en
     \<and> \<not> is_advertisement (snd x)"
proof -
  have "sorted_wrt (<) (map fst (enumerate 0 cards))"
    by simp
  then have "sorted_wrt (\<lambda>x y. fst x < fst y) (enumerate 0 cards)"
    by (simp only: sorted_wrt_map)
  then show "sorted_wrt (<) (map fst (window st en cards))"
    unfolding window_def sorted_wrt_map by (rule sorted_wrt_filter)
  show "\<forall>x \<in> set (window st en cards).
     fst x < length cards \<and> snd x = cards ! fst x \<and> st \<le> int (fst x) \<and> int (fst x) \<le> en
     \<and> \<not> is_advertisement (snd x)"
    by (auto simp: window_def in_set_enumerate_eq)
qed

lemma window_length: "length (window st en cards) \<le> nat (en - st + 1)"
proof -
  let ?w = "map fst (window st en cards)"
  have "distinct ?w"
    using window_indices(1)[of st en cards] by (simp add: strict_sorted_iff)
  then have "length (window st en cards) = card (set ?w)"
    by (metis distinct_card length_map)
  also have "set ?w \<subseteq> (\<lambda>k. nat (st + int k)) ` {0..<nat (en - st + 1)}"
  proof
    fix i assume "i \<in> set ?w"
    then have b: "st \<le> int i" "int i \<le> en" using window_indices(2)[of st en cards] by auto
    then have "nat (int i - st) \<in> {0..<nat (en - st + 1)}" "i = nat (st + int (nat (int i - st)))"
      by auto
    then show "i \<in> (\<lambda>k. nat (st + int k)) ` {0..<nat (en - st + 1)}" by blast
  qed
  then have "card (set ?w) \<le> card ((\<lambda>k. nat (st + int k)) ` {0..<nat (en - st + 1)})"
    by (intro card_mono) auto
  also have "\<dots> \<le> card {0..<nat (en - st + 1)}" by (rule card_image_le) simp
  finally show ?thesis by simp
qed

lemma extracting_cases:
  assumes "extracting env B sp st en s = (Inr r, s')"
  shows "(materialized env s = [] \<longrightarrow>
            r = error_response ''No flight results found for the specified parameters'' sp)
       \<and> (materialized env s \<noteq> [] \<longrightarrow>
            (\<exists>fl. extract_flights B st en (enumerate 0 (materialized env s)) [] = Inr fl \<and>
              r = \<lparr>status = success, flights = Some fl,
                   total_results = int (length (materialized env s)),
                   message =
                     (if int (length (materialized env s)) < en + 1
                      then Some (''Requested up to index '' @ str_int en @ '', but only ''
                                 @ str_int (int (length (materialized env s)))
                                 @ '' results available.'')
                      else None),
                   search_parameters = sp\<rparr>))"
  using assms
  unfolding extracting_def materialized_def Let_def finish_def io_bind_def io_return_def
  by (auto split: if_splits sum.splits prod.splits)


text \<open>
  Claim C5. Whenever the extraction phase returns a report: with no materialized card the
  report is \<open>no_flights_found\<close>; with at least one card it is a success report whose flights
  are exactly the results of the result extractor for the cards of the window
  \<open>[start_index, end_index]\<close> that are not advertisements, in the order of the page (the
  indices of the window increase strictly, each lies in the window and names its card), so
  there are at most \<open>end_index - start_index + 1\<close> of them; \<open>total_results\<close> is the number of
  all materialized cards; and the message is there exactly when \<open>total_results\<close> is below
  \<open>end_index + 1\<close>.
\<close>

theorem C5_extraction_report:
  assumes "extracting env B sp start_index end_index s = (Inr r, s')"
  shows "(materialized env s = [] \<longrightarrow>
            status r = no_flights_found \<and> flights r = None \<and> total_results r = 0)
       \<and> (materialized env s \<noteq> [] \<longrightarrow>
            status r = success
          \<and> (\<exists>fl. flights r = Some fl
                \<and> list_all2 (\<lambda>f x. extract_result B (snd x) = Inr f) fl
                     (window start_index end_index (materialized env s))
                \<and> length fl \<le> nat (end_index - start_index + 1))
          \<and> total_results r = int (length (materialized env s))
          \<and> (message r \<noteq> None \<longleftrightarrow> total_results r < end_index + 1))
       \<and> sorted_wrt (<) (map fst (window start_index end_index (materialized env s)))
       \<and> (\<forall>x \<in> set (window start_index end_index (materialized env s)).
            fst x < length (materialized env s) \<and> snd x = materialized env s ! fst x
            \<and> start_index \<le> int (fst x) \<and> int (fst x) \<le> end_index
            \<and> \<not> is_advertisement (snd x))"
proof -
  note c = extracting_cases[OF assms]
  have empty: "status r = no_flights_found \<and> flights r = None \<and> total_results r = 0"
    if "materialized env s = []"
    using c that by (simp add: error_response_def)
  have full: "status r = success
          \<and> (\<exists>fl. flights r = Some fl
                \<and> list_all2 (\<lambda>f x. extract_result B (snd x) = Inr f) fl
                     (window start_index end_index (materialized env s))
                \<and> length fl \<le> nat (end_index - start_index + 1))
          \<and> total_results r = int (length (materialized env s))
          \<and> (message r \<noteq> None \<longleftrightarrow> total_results r < end_index + 1)"
    if ne: "materialized env s \<noteq> []"
  proof -
    from c ne obtain fl where
      fl: "extract_flights B start_index end_index (enumerate 0 (materialized env s)) [] = Inr fl"
      and r: "r = \<lparr>status = success, flights = Some fl,
                   total_results = int (length (materialized env s)),
                   message =
                     (if int (length (materialized env s)) < end_index + 1
                      then Some (''Requested up to index '' @ str_int end_index @ '', but only ''
                                 @ str_int (int (length (materialized env s)))
                                 @ '' results available.'')
                      else None),
                   search_parameters = sp\<rparr>"
      by blast
    from extract_flights_window[OF fl]
    have w: "list_all2 (\<lambda>f x. extract_result B (snd x) = Inr f) fl
               (window start_index end_index (materialized env s))"
      by (simp add: window_def)
    then have "length fl = length (window start_index end_index (materialized env s))"
      by (rule list_all2_lengthD)
    with window_length[of start_index end_index "materialized env s"]
    have "length fl \<le> nat (end_index - start_index + 1)" by simp
    with w show ?thesis by (simp add: r)
  qed
  from empty full window_indices[of start_index end_index "materialized env s"]
  show ?thesis by blast
qed

lemma plain_card_not_ad: "\<not> is_advertisement (plain_card p)"
  by (simp add: is_advertisement_def plain_card_def dom_defs)

lemma ad_card_is_ad: "is_advertisement ad_card"
  by (simp add: is_advertisement_def ad_card_def dom_defs)

lemma plain_card_selects:
  "query_selector (plain_card p) sel =
     (if sel = ''.hJSA-list'' then Some (Elem [] [] [])
      else if sel = ''.e2GB-price-text'' then Some (Elem p [] []) else None)"
  by (simp add: plain_card_def dom_defs)

lemma extract_result_plain_card:
  "extract_result B (plain_card p) =
     Inr \<lparr>flightDetails =
            \<lparr>price = clean_price p, fareTypes = [], availableSites = 0,
             baggage = \<lparr>carryOn = 0, checkedBags = 0\<rparr>,
             bookingLink = ''https://www.ca.kayak.com''\<rparr>,
          outboundFlight = EmptyDict, returnFlight = EmptyDict,
          metadata = \<lparr>multipleAirlines = False, bookingButtonText = ''N/A''\<rparr>\<rparr>"
  by (simp add: extract_result_def plain_card_selects parse_flight_leg_def available_sites_def
      bag_count_def fee_box_sel_def booking_link_sel_def multiple_airlines_sel_def)

lemma extract_flights_results_page:
  "extract_flights B 0 5
     (enumerate 0 [plain_card ''C$ 1,200'', ad_card, plain_card ''C$ 1,500'']) [] =
   Inr (map (\<lambda>p. \<lparr>flightDetails =
                     \<lparr>price = p, fareTypes = [], availableSites = 0,
                      baggage = \<lparr>carryOn = 0, checkedBags = 0\<rparr>,
                      bookingLink = ''https://www.ca.kayak.com''\<rparr>,
                   outboundFlight = EmptyDict, returnFlight = EmptyDict,
                   metadata = \<lparr>multipleAirlines = False, bookingButtonText = ''N/A''\<rparr>\<rparr>)
          [''C$ 1,200'', ''C$ 1,500''])"
  by (simp add: plain_card_not_ad ad_card_is_ad extract_result_plain_card clean_price_def)

text \<open>
  Three cards, the second an advertisement, and the window from 0 to 5: two flights, the
  total 3, and the message that the window is not filled.
\<close>

theorem C5_extraction_report_witness:
  "\<exists>r. extracting (fixed_page_browser results_page True) ''https://www.ca.kayak.com''
          example_params 0 5 0 = (Inr r, 0)
      \<and> materialized (fixed_page_browser results_page True) 0 \<noteq> []
      \<and> status r = success \<and> total_results r = 3 \<and> message r \<noteq> None
      \<and> (\<exists>fl. flights r = Some fl \<and> length fl \<le> nat (5 - 0 + 1)
               \<and> map (\<lambda>f. price (flightDetails f)) fl = [''C$ 1,200'', ''C$ 1,500''])"
proof -
  let ?env = "fixed_page_browser results_page True"
  have cards: "query_selector_all (page_dom ?env 0) result_sel
                 = [plain_card ''C$ 1,200'', ad_card, plain_card ''C$ 1,500'']"
    using fixed_page_materialized[of True 0] by (simp add: materialized_def)
  have io: "browser_close ?env = io_return ()" "save_report ?env = (\<lambda>r. io_return ())"
    by (simp_all add: fixed_page_browser_def write_file_def)
  have "\<exists>r. extracting ?env ''https://www.ca.kayak.com'' example_params 0 5 0 = (Inr r, 0)
               \<and> (\<exists>fl. flights r = Some fl
                     \<and> map (\<lambda>f. price (flightDetails f)) fl = [''C$ 1,200'', ''C$ 1,500''])"
    unfolding extracting_def cards Let_def extract_flights_results_page
    by (simp add: io finish_def io_bind_def io_return_def)
  then obtain r where rr:
    "extracting ?env ''https://www.ca.kayak.com'' example_params 0 5 0 = (Inr r, 0)
       \<and> (\<exists>fl. flights r = Some fl
             \<and> map (\<lambda>f. price (flightDetails f)) fl = [''C$ 1,200'', ''C$ 1,500''])" ..
  note r = rr[THEN conjunct1] and fl = rr[THEN conjunct2]
  have ne: "materialized ?env 0 \<noteq> []" by (simp add: fixed_page_materialized)
  from C5_extraction_report[OF r] ne
  have "status r = success" "total_results r = 3" "message r \<noteq> None"
    "\<exists>fl. flights r = Some fl \<and> length fl \<le> nat (5 - 0 + 1)"
    by (auto simp: fixed_page_materialized)
  with r ne fl show ?thesis by auto
qed

subsection \<open>The top-level handler\<close>

lemma navigate_loop_first_try:
  "navigate env url s = (Inr (), s1) \<Longrightarrow> navigate_loop env url 0 s = (Inr True, s1)"
  by (subst navigate_loop.simps) simp

lemma example_url:
  "generate_search_url ''https://www.ca.kayak.com/flights'' ''YYZ'' ''HKG''
     ''2025-07-01'' None \<lparr>adults = 2, students = 0, children = []\<rparr> ECONOMY CHEAPEST None
   = Inr ''https://www.ca.kayak.com/flights/YYZ-HKG/2025-07-01/2adults/economy?sort=price_a''"
  by (simp add: generate_search_url_def match_defs truthy_def passengers_to_url_string_def
      str_int_2)

lemma session_reaches_extraction:
  assumes "launch env s = (Inr (), s0)"
    and "navigate_loop env url 0 s0 = (Inr True, s1)"
    and "query_selector (page_dom env s1) no_results_sel = None"
    and "wait_for_results env s1 = (Inr (), s2)"
    and "paginate env (end_index + 1) 0 s2 = Some (Inr (), s3)"
  shows "scrape_session env B url sp start_index end_index s
           = Some (extracting env B sp start_index end_index (page_step env s3))"
  using assms by (simp add: scrape_session_def)

text \<open>
  Claim C4, as amended. For an invocation that passes the index checks and the URL builder:
  when the session ends with an exception, that is, with one that no handler inside the
  session has caught, and the top-level handler's write of the report files does not raise,
  \<open>scrape_flights\<close> returns the report \<open>no_flights_found\<close> with zero results and the message
  \<open>Error occurred: \<close> followed by the text of the exception. A report that the session
  returns is returned as it is. An exception raised by the launch of the browser ends the
  session, and so does an exception raised in the extraction phase.
\<close>

theorem C4_unhandled_exception_reported:
  assumes idx: "0 \<le> start_index" "start_index \<le> end_index"
    and url: "generate_search_url BSU dep arr dd rd p pt so fs = Inr url"
    and sp: "sp = \<lparr>search_url = url, sp_departure_airport = dep,
                    sp_arrival_airport = arr, sp_departure_date = dd,
                    sp_return_date = rd, sp_passengers = passengers_to_dict p,
                    sp_plane_type = PlaneType_value pt,
                    sp_sort_option = SortOption_value so,
                    sp_filters = map_option filters_to_dict fs,
                    sp_start_index = start_index, sp_end_index = end_index\<rparr>"
  shows "(\<forall>e s1. scrape_session env B url sp start_index end_index s = Some (Inl e, s1)
              \<and> fst (save_report env (error_response (''Error occurred: '' @ error_text e) sp) s1)
                  = Inr () \<longrightarrow>
            (\<exists>r s'. scrape_flights env BSU B dep arr dd rd p pt so fs start_index end_index s
                       = Some (Inr r, s')
               \<and> r = error_response (''Error occurred: '' @ error_text e) sp
               \<and> status r = no_flights_found \<and> total_results r = 0
               \<and> message r = Some (''Error occurred: '' @ error_text e)))
       \<and> (\<forall>r s1. scrape_session env B url sp start_index end_index s = Some (Inr r, s1) \<longrightarrow>
            scrape_flights env BSU B dep arr dd rd p pt so fs start_index end_index s
              = Some (Inr r, s1))
       \<and> (\<forall>e s1. launch env s = (Inl e, s1) \<longrightarrow>
            scrape_session env B url sp start_index end_index s = Some (Inl e, s1))
       \<and> (\<forall>s0 s1 s2 s3 e s4.
            launch env s = (Inr (), s0)
            \<and> navigate_loop env url 0 s0 = (Inr True, s1)
            \<and> query_selector (page_dom env s1) no_results_sel = None
            \<and> wait_for_results env s1 = (Inr (), s2)
            \<and> paginate env (end_index + 1) 0 s2 = Some (Inr (), s3)
            \<and> extracting env B sp start_index end_index (page_step env s3) = (Inl e, s4) \<longrightarrow>
            scrape_session env B url sp start_index end_index s = Some (Inl e, s4))"
proof -
  have eq: "scrape_flights env BSU B dep arr dd rd p pt so fs start_index end_index s
              = (case scrape_session env B url sp start_index end_index s of
                   None \<Rightarrow> None
                 | Some (Inl e, s1) \<Rightarrow>
                     Some (finish env (error_response (''Error occurred: '' @ error_text e) sp) s1)
                 | Some (Inr r, s1) \<Rightarrow> Some (Inr r, s1))"
    using idx url unfolding sp by (simp add: scrape_flights_def Let_def)
  have caught: "\<exists>r s'. scrape_flights env BSU B dep arr dd rd p pt so fs start_index end_index s
                       = Some (Inr r, s')
               \<and> r = error_response (''Error occurred: '' @ error_text e) sp
               \<and> status r = no_flights_found \<and> total_results r = 0
               \<and> message r = Some (''Error occurred: '' @ error_text e)"
    if "scrape_session env B url sp start_index end_index s = Some (Inl e, s1)
        \<and> fst (save_report env (error_response (''Error occurred: '' @ error_text e) sp) s1)
            = Inr ()" for e s1
  proof -
    let ?r = "error_response (''Error occurred: '' @ error_text e) sp"
    from that obtain s' where "finish env ?r s1 = (Inr ?r, s')"
      by (cases "save_report env ?r s1") (auto simp: finish_def io_bind_def io_return_def)
    with that show ?thesis by (simp add: eq error_response_def)
  qed
  have passed: "scrape_flights env BSU B dep arr dd rd p pt so fs start_index end_index s
                  = Some (Inr r, s1)"
    if "scrape_session env B url sp start_index end_index s = Some (Inr r, s1)" for r s1
    using that by (simp add: eq)
  have launched: "scrape_session env B url sp start_index end_index s = Some (Inl e, s1)"
    if "launch env s = (Inl e, s1)" for e s1
    using that by (simp add: scrape_session_def)
  have extracted: "scrape_session env B url sp start_index end_index s = Some (Inl e, s4)"
    if "launch env s = (Inr (), s0)
            \<and> navigate_loop env url 0 s0 = (Inr True, s1)
            \<and> query_selector (page_dom env s1) no_results_sel = None
            \<and> wait_for_results env s1 = (Inr (), s2)
            \<and> paginate env (end_index + 1) 0 s2 = Some (Inr (), s3)
            \<and> extracting env B sp start_index end_index (page_step env s3) = (Inl e, s4)"
    for s0 s1 s2 s3 e s4
    using that session_reaches_extraction[of env s s0 url s1 s2 end_index s3 B sp start_index]
    by simp
  from caught passed launched extracted show ?thesis by blast
qed

text \<open>
  The browser cannot be launched and the working directory is writable: the session ends
  with the exception of the launch, and the report carries its text.
\<close>

theorem C4_unhandled_exception_reported_witness:
  "launch no_browser 0 = (Inl (EnvError ''Executable does not exist''), 0)
   \<and> scrape_session no_browser ''https://www.ca.kayak.com''
       ''https://www.ca.kayak.com/flights/YYZ-HKG/2025-07-01/2adults/economy?sort=price_a''
       (example_params\<lparr>sp_end_index := 15\<rparr>) 0 15 0
       = Some (Inl (EnvError ''Executable does not exist''), 0)
   \<and> (\<exists>r s'. scrape_flights no_browser ''https://www.ca.kayak.com/flights''
            ''https://www.ca.kayak.com'' ''YYZ'' ''HKG'' ''2025-07-01'' None
            \<lparr>adults = 2, students = 0, children = []\<rparr> ECONOMY CHEAPEST None 0 15 0
              = Some (Inr r, s')
          \<and> status r = no_flights_found \<and> total_results r = 0
          \<and> message r = Some ''Error occurred: Executable does not exist'')"
proof -
  let ?url = "''https://www.ca.kayak.com/flights/YYZ-HKG/2025-07-01/2adults/economy?sort=price_a''"
  let ?sp = "example_params\<lparr>sp_end_index := 15\<rparr>"
  let ?e = "EnvError ''Executable does not exist''"
  have launch: "launch no_browser 0 = (Inl ?e, 0)"
    by (simp add: no_browser_def io_raise_def)
  have sp: "?sp = \<lparr>search_url = ?url, sp_departure_airport = ''YYZ'',
                    sp_arrival_airport = ''HKG'', sp_departure_date = ''2025-07-01'',
                    sp_return_date = None,
                    sp_passengers = passengers_to_dict \<lparr>adults = 2, students = 0, children = []\<rparr>,
                    sp_plane_type = PlaneType_value ECONOMY,
                    sp_sort_option = SortOption_value CHEAPEST,
                    sp_filters = map_option filters_to_dict None,
                    sp_start_index = 0, sp_end_index = 15\<rparr>"
    by (simp add: example_params_def passengers_to_dict_def)
  have store: "fst (save_report no_browser (error_response (''Error occurred: '' @ error_text ?e) ?sp) 0)
                 = Inr ()"
    by (simp add: no_browser_def fixed_page_browser_def write_file_def io_return_def)
  have idx: "(0::int) \<le> 0" "(0::int) \<le> 15" by simp_all
  note t = C4_unhandled_exception_reported[OF idx example_url sp,
             of no_browser "''https://www.ca.kayak.com''" 0]
  from t launch have sess: "scrape_session no_browser ''https://www.ca.kayak.com'' ?url ?sp 0 15 0
                = Some (Inl ?e, 0)"
    by blast
  with t store obtain r s' where r: "scrape_flights no_browser ''https://www.ca.kayak.com/flights''
            ''https://www.ca.kayak.com'' ''YYZ'' ''HKG'' ''2025-07-01'' None
            \<lparr>adults = 2, students = 0, children = []\<rparr> ECONOMY CHEAPEST None 0 15 0
              = Some (Inr r, s')"
    and props: "status r = no_flights_found" "total_results r = 0"
      "message r = Some (''Error occurred: '' @ error_text ?e)"
    by blast
  from r props launch sess show ?thesis by auto
qed

lemma failing_click_paginate:
  "paginate failing_click_browser 16 0 0 = Some (Inr (), 0)"
proof -
  have cards: "query_selector_all (page_dom failing_click_browser s) result_sel
                 = [plain_card ''C$ 1,200'', ad_card, plain_card ''C$ 1,500'']" for s
    using fixed_page_materialized[of True s]
    by (simp add: materialized_def failing_click_browser_def fixed_page_browser_def)
  have btn: "query_selector (page_dom failing_click_browser s) show_more_sel \<noteq> None" for s
    by (simp add: failing_click_browser_def fixed_page_browser_def results_page_def dom_defs
        result_sel_def show_more_sel_def)
  have ops: "click_show_more failing_click_browser 0 = (Inl (EnvError ''Timeout 30000ms exceeded.''), 0)"
    "screenshot failing_click_browser = (\<lambda>p. io_return ())"
    "write_page failing_click_browser = (\<lambda>p. io_return ())"
    "page_step failing_click_browser = (\<lambda>s. s)"
    by (simp_all add: failing_click_browser_def fixed_page_browser_def write_file_def io_raise_def
        fun_eq_iff)
  show ?thesis
    unfolding paginate_def
    by (subst paginate_run.simps) (simp add: cards btn ops io_bind_def io_return_def)
qed

text \<open>
  Claim C4 as stated fails for an exception that a handler inside the session takes care of:
  when the click on "show more" raises, the handler of the click takes a screenshot, saves
  the page and leaves the loop; the cards of the page are extracted and the report is a
  success report with the total 3.
\<close>

theorem C4_counterexample:
  "click_show_more failing_click_browser 0 = (Inl (EnvError ''Timeout 30000ms exceeded.''), 0)
   \<and> scrape_flights failing_click_browser ''https://www.ca.kayak.com/flights''
         ''https://www.ca.kayak.com'' ''YYZ'' ''HKG'' ''2025-07-01'' None
         \<lparr>adults = 2, students = 0, children = []\<rparr> ECONOMY CHEAPEST None 0 15 0
       = Some (Inr three_card_report, 0)
   \<and> status three_card_report = success
   \<and> total_results three_card_report = 3"
proof -
  let ?env = "failing_click_browser"
  have click: "click_show_more ?env 0 = (Inl (EnvError ''Timeout 30000ms exceeded.''), 0)"
    by (simp add: failing_click_browser_def io_raise_def)
  have nav: "navigate_loop ?env u 0 0 = (Inr True, 0)" for u
    by (rule navigate_loop_first_try)
       (simp add: failing_click_browser_def fixed_page_browser_def io_return_def)
  have ops: "launch ?env = io_return ()" "browser_close ?env = io_return ()"
    "wait_for_results ?env = io_return ()"
    "save_report ?env = (\<lambda>r. io_return ())"
    "page_dom ?env = (\<lambda>s. results_page)"
    "page_step ?env = (\<lambda>s. s)"
    by (simp_all add: failing_click_browser_def fixed_page_browser_def write_file_def)
  have ind: "query_selector results_page no_results_sel = None"
    by (simp add: results_page_def dom_defs result_sel_def show_more_sel_def no_results_sel_def)
  have cards: "query_selector_all results_page result_sel
                 = [plain_card ''C$ 1,200'', ad_card, plain_card ''C$ 1,500'']"
    by (simp add: results_page_def query_selector_all_def)
  have ex: "extract_flights B 0 15
              (enumerate 0 [plain_card ''C$ 1,200'', ad_card, plain_card ''C$ 1,500'']) []
            = Inr [card_result ''C$ 1,200'', card_result ''C$ 1,500'']" for B
    by (simp add: plain_card_not_ad ad_card_is_ad extract_result_plain_card clean_price_def
        card_result_def)
  have msg: "str_int 15 = ''15''" "str_int 3 = ''3''"
    by (simp_all add: str_int_def str_nat.simps digit_char_def)
  have "extracting ?env B sp 0 15 0
          = (Inr (three_card_report\<lparr>search_parameters := sp\<rparr>), 0)" for B sp
    unfolding extracting_def ops cards Let_def ex
    by (simp add: ops finish_def io_bind_def io_return_def msg three_card_report_def)
  then have sess: "scrape_session ?env B u sp 0 15 0
                     = Some (Inr (three_card_report\<lparr>search_parameters := sp\<rparr>), 0)" for B u sp
    using failing_click_paginate
    by (simp add: scrape_session_def io_return_def nav ops ind)
  have "scrape_flights ?env ''https://www.ca.kayak.com/flights''
            ''https://www.ca.kayak.com'' ''YYZ'' ''HKG'' ''2025-07-01'' None
            \<lparr>adults = 2, students = 0, children = []\<rparr> ECONOMY CHEAPEST None 0 15 0
              = Some (Inr three_card_report, 0)"
    by (simp add: scrape_flights_def example_url Let_def sess three_card_report_def
        example_params_def passengers_to_dict_def)
  with click show ?thesis by (simp add: three_card_report_def)
qed

text \<open>
  What the amended claim leaves out. In a working directory that is read-only every write of
  a file raises. The page shows that there are no results; the session closes the browser
  and raises when it writes \<open>flights_data.json\<close>; the top-level handler catches this
  exception, builds the error report and writes the same file, which raises again:
  \<open>scrape_flights\<close> raises to its caller and returns no report.
\<close>

lemma handler_write_failure_propagates:
  "scrape_flights (fixed_page_browser no_results_page False)
     ''https://www.ca.kayak.com/flights'' ''https://www.ca.kayak.com''
     ''YYZ'' ''HKG'' ''2025-07-01'' None \<lparr>adults = 2, students = 0, children = []\<rparr>
     ECONOMY CHEAPEST None 0 15 0
   = Some (Inl (EnvError ''[Errno 30] Read-only file system: flights_data.json''), 0)"
proof -
  let ?env = "fixed_page_browser no_results_page False"
  have nav: "navigate_loop ?env u 0 0 = (Inr True, 0)" for u
    by (rule navigate_loop_first_try) (simp add: fixed_page_browser_def io_return_def)
  have ops: "launch ?env = io_return ()" "browser_close ?env = io_return ()"
    "save_report ?env = (\<lambda>r. io_raise (EnvError ''[Errno 30] Read-only file system: flights_data.json''))"
    "page_dom ?env = (\<lambda>s. no_results_page)"
    by (simp_all add: fixed_page_browser_def write_file_def)
  have ind: "query_selector no_results_page no_results_sel \<noteq> None"
    by (simp add: no_results_page_def dom_defs)
  have sess: "scrape_session ?env B u sp 0 15 0
                = Some (Inl (EnvError ''[Errno 30] Read-only file system: flights_data.json''), 0)"
    for B u sp
    by (simp add: scrape_session_def io_bind_def io_return_def io_raise_def nav ops ind finish_def)
  show ?thesis
    by (simp add: scrape_flights_def example_url Let_def sess finish_def io_bind_def ops io_raise_def)
qed

text \<open>
  Nor does \<open>scrape_flights\<close> return on the page whose fourth card comes and goes: the
  pagination loop never ends, and with it the session.
\<close>

lemma endless_pagination_no_report:
  "scrape_flights flickering_browser
     ''https://www.ca.kayak.com/flights'' ''https://www.ca.kayak.com''
     ''YYZ'' ''HKG'' ''2025-07-01'' None \<lparr>adults = 2, students = 0, children = []\<rparr>
     ECONOMY CHEAPEST None 0 15 0
   = None"
proof -
  let ?env = "flickering_browser"
  have nav: "navigate_loop ?env u 0 0 = (Inr True, 0)" for u
    by (rule navigate_loop_first_try)
       (simp add: flickering_browser_def fixed_page_browser_def io_return_def)
  have ops: "launch ?env = io_return ()" "wait_for_results ?env = io_return ()"
    by (simp_all add: flickering_browser_def fixed_page_browser_def)
  have ind: "query_selector (page_dom ?env 0) no_results_sel = None"
    by (simp add: flickering_browser_def fixed_page_browser_def results_page_def dom_defs
        result_sel_def show_more_sel_def no_results_sel_def)
  have sess: "scrape_session ?env B u sp 0 15 0 = None" for B u sp
    by (simp add: scrape_session_def io_return_def nav ops ind paginate_def
        flickering_paginate_run)
  show ?thesis
    by (simp add: scrape_flights_def example_url Let_def sess)
qed

subsection \<open>Success reports\<close>

text \<open>
  Every success report of \<open>scrape_flights\<close> is a report of the extraction phase, run in the
  state in which the page is read after the pagination loop.
\<close>

lemma finish_result: "finish env r s = (Inr r', s') \<Longrightarrow> r' = r"
  by (auto simp: finish_def io_bind_def io_return_def split: prod.splits sum.splits)

lemma finish_error_not_success:
  "finish env (error_response m sp) s = (Inr r, s') \<Longrightarrow> status r \<noteq> success"
  by (auto dest: finish_result simp: error_response_def)

lemma scrape_session_success:
  assumes "scrape_session env B url sp start_index end_index s = Some (Inr r, s')"
    and "status r = success"
  shows "\<exists>s0 s1. paginate env (end_index + 1) 0 s0 = Some (Inr (), s1)
           \<and> extracting env B sp start_index end_index (page_step env s1) = (Inr r, s')"
  using assms
  unfolding scrape_session_def io_bind_def
  by (auto split: prod.splits sum.splits if_splits option.splits dest: finish_error_not_success)

lemma scrape_flights_success:
  assumes "scrape_flights env BSU B dep arr dd rd p pt so fs start_index end_index s
             = Some (Inr r, s')"
    and "status r = success"
  shows "\<exists>s0 s1. paginate env (end_index + 1) 0 s0 = Some (Inr (), s1)
           \<and> extracting env B (search_parameters r) start_index end_index (page_step env s1)
               = (Inr r, s')"
proof -
  from assms(1) obtain url where
    url: "generate_search_url BSU dep arr dd rd p pt so fs = Inr url"
    by (auto simp: scrape_flights_def split: if_splits sum.splits)
  define sp where "sp = \<lparr>search_url = url, sp_departure_airport = dep,
                    sp_arrival_airport = arr, sp_departure_date = dd,
                    sp_return_date = rd, sp_passengers = passengers_to_dict p,
                    sp_plane_type = PlaneType_value pt,
                    sp_sort_option = SortOption_value so,
                    sp_filters = map_option filters_to_dict fs,
                    sp_start_index = start_index, sp_end_index = end_index\<rparr>"
  from assms(1) url have
    "(case scrape_session env B url sp start_index end_index s of
        None \<Rightarrow> None
      | Some (Inl e, s1) \<Rightarrow>
          Some (finish env (error_response (''Error occurred: '' @ error_text e) sp) s1)
      | Some (Inr r, s1) \<Rightarrow> Some (Inr r, s1)) = Some (Inr r, s')"
    unfolding sp_def by (auto simp: scrape_flights_def Let_def split: if_splits)
  with assms(2) have sess: "scrape_session env B url sp start_index end_index s = Some (Inr r, s')"
    by (auto split: option.splits prod.splits sum.splits dest: finish_error_not_success)
  from scrape_session_success[OF sess assms(2)] obtain s0 s1 where
    pe: "paginate env (end_index + 1) 0 s0 = Some (Inr (), s1)"
      "extracting env B sp start_index end_index (page_step env s1) = (Inr r, s')"
    by blast
  from pe(2) assms(2) have "search_parameters r = sp"
    by (auto simp: extracting_def Let_def finish_def io_bind_def io_return_def error_response_def
        split: if_splits sum.splits prod.splits)
  with pe show ?thesis by blast
qed

section \<open>The tool\<close>

lemma ascii_digit_cases:
  assumes "is_ascii_digit c"
  shows "c \<in> set ''0123456789''"
proof -
  have "(of_char c :: nat) \<in> {48..57}"
    using assms by (simp add: is_ascii_digit_def less_eq_char_def)
  then have "(of_char c :: nat) \<in> of_char ` set ''0123456789''"
    by (auto simp: atLeastAtMost_iff) presburger
  then show ?thesis by (auto simp only: image_iff of_char_eq_iff)
qed


lemma digit_val_range:
  assumes "is_ascii_digit c"
  shows "0 \<le> digit_val c \<and> digit_val c \<le> 9 \<and> digit_char (nat (digit_val c)) = c"
  using ascii_digit_cases[OF assms] by (auto simp: digit_val_def digit_char_def)

lemma digit_char_is_digit: "k < 10 \<Longrightarrow> is_ascii_digit (digit_char k)"
proof -
  assume "k < 10"
  then have "k \<in> {0, 1, 2, 3, 4, 5, 6, 7, 8, 9}" by auto
  then show ?thesis by (auto simp: digit_char_def is_ascii_digit_def)
qed

lemma pad2_two_digits:
  assumes "is_ascii_digit a" "is_ascii_digit b"
  shows "pad2 (digits_val [a, b]) = [a, b]"
proof -
  define x where "x = nat (digit_val a)"
  define y where "y = nat (digit_val b)"
  have x: "x \<le> 9" "digit_char x = a" "digit_val a = int x"
    using digit_val_range[OF assms(1)] by (auto simp: x_def)
  have y: "y \<le> 9" "digit_char y = b" "digit_val b = int y"
    using digit_val_range[OF assms(2)] by (auto simp: y_def)
  have v: "digits_val [a, b] = int (10 * x + y)"
    by (simp add: digits_val_def x y)
  show ?thesis
  proof (cases "x = 0")
    case True
    with x have a0: "CHR ''0'' = a" by (auto simp: digit_char_def)
    have val: "digits_val [a, b] = int y" using v True by simp
    have "pad2 (int y) = [CHR ''0'', digit_char y]"
      using y by (simp add: pad2_def str_int_def str_nat.simps[of y])
    then show ?thesis unfolding val a0 y by simp
  next
    case False
    then have "\<not> 10 * x + y < 10" by simp
    moreover have "(10 * x + y) div 10 = x" "(10 * x + y) mod 10 = y" using y by auto
    ultimately have "str_nat (10 * x + y) = [a, b]"
      using x y by (simp add: str_nat.simps[of "10 * x + y"] str_nat.simps[of x])
    moreover have "nat (int (10 * x + y)) = 10 * x + y" by simp
    ultimately show ?thesis
      using False unfolding v pad2_def str_int_def by (simp only: nat_int) simp
  qed
qed

lemma match_date_shape:
  assumes "match_date d" "length d = 10"
  shows "\<exists>y1 y2 y3 y4 m1 m2 d1 d2.
           d = [y1, y2, y3, y4, CHR ''-'', m1, m2, CHR ''-'', d1, d2]
           \<and> is_ascii_digit m1 \<and> is_ascii_digit m2 \<and> is_ascii_digit d1 \<and> is_ascii_digit d2"
proof -
  from assms(2) obtain y1 y2 y3 y4 s1 m1 m2 s2 d1 d2 where
    d: "d = [y1, y2, y3, y4, s1, m1, m2, s2, d1, d2]"
    by (auto simp: length_Suc_conv eval_nat_numeral)
  with assms(1) show ?thesis
    by (auto simp: match_date_def match_anchored_def)
qed

lemma adjust_date_past_year:
  assumes "match_date d" "strptime_ymd d = Inr t" "fst t < current_year"
  shows "adjust_date current_year which d = Inr (str_int current_year @ drop 4 d)"
proof -
  from assms(2) have len: "length d = 10"
    by (auto simp: strptime_ymd_def split: if_splits)
  from match_date_shape[OF assms(1) len] obtain y1 y2 y3 y4 m1 m2 d1 d2 where
    d: "d = [y1, y2, y3, y4, CHR ''-'', m1, m2, CHR ''-'', d1, d2]"
    and dg: "is_ascii_digit m1" "is_ascii_digit m2" "is_ascii_digit d1" "is_ascii_digit d2"
    by blast
  from assms(2) have t: "snd t = (digits_val [m1, m2], digits_val [d1, d2])"
    by (auto simp: strptime_ymd_def Let_def d split: if_splits)
  have "strftime_md t = [m1, m2] @ ''-'' @ [d1, d2]"
    using t pad2_two_digits[OF dg(1,2)] pad2_two_digits[OF dg(3,4)]
    by (cases t) (simp add: strftime_md_def)
  then show ?thesis
    using assms by (simp add: adjust_date_def d)
qed

lemma str_nat_four_digits:
  assumes "1000 \<le> n" "n \<le> 9999"
  shows "\<exists>a b c e. str_nat n = [a, b, c, e] \<and> is_ascii_digit a \<and> is_ascii_digit b
           \<and> is_ascii_digit c \<and> is_ascii_digit e"
proof -
  have 1: "str_nat n = str_nat (n div 10) @ [digit_char (n mod 10)]"
    using assms by (simp add: str_nat.simps[of n])
  have 2: "str_nat (n div 10) = str_nat (n div 10 div 10) @ [digit_char (n div 10 mod 10)]"
    using assms by (simp add: str_nat.simps[of "n div 10"])
  have 3: "str_nat (n div 10 div 10)
             = str_nat (n div 10 div 10 div 10) @ [digit_char (n div 10 div 10 mod 10)]"
    using assms by (simp add: str_nat.simps[of "n div 10 div 10"])
  have 4: "str_nat (n div 10 div 10 div 10) = [digit_char (n div 10 div 10 div 10)]"
    using assms by (simp add: str_nat.simps[of "n div 10 div 10 div 10"])
  have "n div 10 div 10 div 10 < 10" using assms by simp
  then show ?thesis
    unfolding 1 2 3 4 by (simp add: digit_char_is_digit)
qed

lemma rewritten_date_matches:
  assumes "match_date d" "length d = 10" "1000 \<le> current_year" "current_year \<le> 9999"
  shows "match_date (str_int current_year @ drop 4 d)"
proof -
  from match_date_shape[OF assms(1,2)] obtain y1 y2 y3 y4 m1 m2 d1 d2 where
    d: "d = [y1, y2, y3, y4, CHR ''-'', m1, m2, CHR ''-'', d1, d2]"
    and dg: "is_ascii_digit m1" "is_ascii_digit m2" "is_ascii_digit d1" "is_ascii_digit d2"
    by blast
  have "1000 \<le> nat current_year" "nat current_year \<le> 9999" using assms by auto
  from str_nat_four_digits[OF this] obtain a b c e where
    y: "str_nat (nat current_year) = [a, b, c, e]" "is_ascii_digit a" "is_ascii_digit b"
      "is_ascii_digit c" "is_ascii_digit e"
    by blast
  have "str_int current_year = [a, b, c, e]" using assms y by (simp add: str_int_def)
  with y dg show ?thesis
    by (simp add: d match_date_def match_anchored_def)
qed


lemma validate_and_convert_dates:
  assumes "validate_and_convert si a dd rd = Inr c"
  shows "call_departure_date c = dd \<and> call_return_date c = rd"
  using assms unfolding validate_and_convert_def
  by (auto split: if_splits sum.splits)

lemma validate_and_convert_ignores_date:
  "validate_and_convert si (a\<lparr>arg_departure_date := x\<rparr>) dd rd = validate_and_convert si a dd rd"
  unfolding validate_and_convert_def
  by (simp split del: if_split cong: if_cong sum.case_cong option.case_cong)

lemma tool_call_same_rewrite:
  assumes "adjust_date cy ''departure'' d1 = adjust_date cy ''departure'' d2"
  shows "scrape_flights_tool_call si cy (a\<lparr>arg_departure_date := d1\<rparr>)
           = scrape_flights_tool_call si cy (a\<lparr>arg_departure_date := d2\<rparr>)"
  using assms
  by (simp add: scrape_flights_tool_call_def validate_and_convert_ignores_date
      split del: if_split cong: if_cong sum.case_cong)

lemma adjust_date_unparsed:
  assumes "match_date d" and "strptime_ymd d = Inl e"
  shows "adjust_date current_year which d
           = Inl (''Invalid '' @ which @ '' date: Unable to parse date.'')"
  using assms by (simp add: adjust_date_def)

lemma match_date_not_empty: "match_date d \<Longrightarrow> d \<noteq> []"
  by (auto simp: match_date_def match_anchored_def)

text \<open>
  Claim C10, as amended. For a date that has the form YYYY-MM-DD, that \<open>strptime\<close> parses
  (a date of the calendar with a year of at least 1) and whose year is earlier than the
  current year, the tool replaces the year by the current year and keeps the rest of the
  text, the month and the day; with a current year of four digits the new date passes the
  later check of the form. Whenever the tool goes on to call \<open>scrape_flights\<close>, it passes
  the rewritten departure date, and the rewritten return date, in place of the given one.
  The rewrite is silent: what the tool does next is the same for two invocations that
  differ only in the past year of the departure date. A date that has the form YYYY-MM-DD
  and that \<open>strptime\<close> does not parse is rejected, whatever its year: as the departure date
  with the text \<open>Invalid departure date: Unable to parse date.\<close>, and as the return date,
  when the block of the departure date has accepted the departure date, with the text
  \<open>Invalid return date: Unable to parse date.\<close>
\<close>

theorem C10_past_year_rewritten:
  "(match_date d \<and> strptime_ymd d = Inr t \<and> fst t < current_year \<longrightarrow>
      adjust_date current_year which d = Inr (str_int current_year @ drop 4 d)
      \<and> (1000 \<le> current_year \<and> current_year \<le> 9999 \<longrightarrow>
           match_date (str_int current_year @ drop 4 d))
      \<and> (arg_departure_date a = d \<longrightarrow>
           (\<forall>c. scrape_flights_tool_call set_iter current_year a = Inr c \<longrightarrow>
                call_departure_date c = str_int current_year @ drop 4 d))
      \<and> (arg_return_date a = Some d \<longrightarrow>
           (\<forall>c. scrape_flights_tool_call set_iter current_year a = Inr c \<longrightarrow>
                call_return_date c = Some (str_int current_year @ drop 4 d)))
      \<and> (\<forall>d2 t2. match_date d2 \<and> strptime_ymd d2 = Inr t2 \<and> fst t2 < current_year
                   \<and> drop 4 d2 = drop 4 d \<longrightarrow>
           scrape_flights_tool_call set_iter current_year (a\<lparr>arg_departure_date := d2\<rparr>)
             = scrape_flights_tool_call set_iter current_year (a\<lparr>arg_departure_date := d\<rparr>)))
   \<and> (match_date d \<and> (\<exists>e. strptime_ymd d = Inl e) \<longrightarrow>
      adjust_date current_year which d
        = Inl (''Invalid '' @ which @ '' date: Unable to parse date.'')
      \<and> (arg_departure_date a = d \<longrightarrow>
           scrape_flights_tool_call set_iter current_year a
             = Inl ''Invalid departure date: Unable to parse date.'')
      \<and> (arg_return_date a = Some d
           \<and> (\<exists>dd. adjust_date current_year ''departure'' (arg_departure_date a) = Inr dd) \<longrightarrow>
           scrape_flights_tool_call set_iter current_year a
             = Inl ''Invalid return date: Unable to parse date.''))"
proof (intro conjI impI)
  assume asm: "match_date d \<and> strptime_ymd d = Inr t \<and> fst t < current_year"
  then have assms: "match_date d" "strptime_ymd d = Inr t" "fst t < current_year" by simp_all
  note adj = adjust_date_past_year[OF assms]
  from assms(2) have len: "length d = 10"
    by (auto simp: strptime_ymd_def split: if_splits)
  show "adjust_date current_year which d = Inr (str_int current_year @ drop 4 d)"
    by (rule adj)
  show "match_date (str_int current_year @ drop 4 d)"
    if "1000 \<le> current_year \<and> current_year \<le> 9999"
    using rewritten_date_matches[OF assms(1) len] that by simp
  show "\<forall>c. scrape_flights_tool_call set_iter current_year a = Inr c \<longrightarrow>
                call_departure_date c = str_int current_year @ drop 4 d"
    if "arg_departure_date a = d"
    using that adj[of "''departure''"]
    by (auto simp: scrape_flights_tool_call_def dest: validate_and_convert_dates
        split: if_splits sum.splits)
  show "\<forall>c. scrape_flights_tool_call set_iter current_year a = Inr c \<longrightarrow>
                call_return_date c = Some (str_int current_year @ drop 4 d)"
    if r: "arg_return_date a = Some d"
  proof (intro allI impI)
    fix c assume c: "scrape_flights_tool_call set_iter current_year a = Inr c"
    have "truthy (arg_return_date a)" using r len by (auto simp: truthy_def)
    with c r adj[of "''return''"] show "call_return_date c = Some (str_int current_year @ drop 4 d)"
      by (auto simp: scrape_flights_tool_call_def dest: validate_and_convert_dates
          split: sum.splits)
  qed
  show "\<forall>d2 t2. match_date d2 \<and> strptime_ymd d2 = Inr t2 \<and> fst t2 < current_year
                   \<and> drop 4 d2 = drop 4 d \<longrightarrow>
           scrape_flights_tool_call set_iter current_year (a\<lparr>arg_departure_date := d2\<rparr>)
             = scrape_flights_tool_call set_iter current_year (a\<lparr>arg_departure_date := d\<rparr>)"
  proof (intro allI impI)
    fix d2 t2
    assume that: "match_date d2 \<and> strptime_ymd d2 = Inr t2 \<and> fst t2 < current_year
              \<and> drop 4 d2 = drop 4 d"
    then have "adjust_date current_year ''departure'' d2
                      = Inr (str_int current_year @ drop 4 d)"
      using adjust_date_past_year[of d2 t2 current_year "''departure''"] by simp
    with adj[of "''departure''"] have "adjust_date current_year ''departure'' d2
                      = adjust_date current_year ''departure'' d"
      by simp
    then show "scrape_flights_tool_call set_iter current_year (a\<lparr>arg_departure_date := d2\<rparr>)
              = scrape_flights_tool_call set_iter current_year (a\<lparr>arg_departure_date := d\<rparr>)"
      by (rule tool_call_same_rewrite)
  qed
next
  assume asm: "match_date d \<and> (\<exists>e. strptime_ymd d = Inl e)"
  then obtain e where md: "match_date d" and un: "strptime_ymd d = Inl e" by blast
  note rej = adjust_date_unparsed[OF md un]
  show "adjust_date current_year which d
          = Inl (''Invalid '' @ which @ '' date: Unable to parse date.'')"
    by (rule rej)
  show "scrape_flights_tool_call set_iter current_year a
          = Inl ''Invalid departure date: Unable to parse date.''"
    if "arg_departure_date a = d"
    using that rej[of current_year "''departure''"] by (simp add: scrape_flights_tool_call_def)
  show "scrape_flights_tool_call set_iter current_year a
          = Inl ''Invalid return date: Unable to parse date.''"
    if r: "arg_return_date a = Some d
           \<and> (\<exists>dd. adjust_date current_year ''departure'' (arg_departure_date a) = Inr dd)"
  proof -
    from r obtain dd where dd: "adjust_date current_year ''departure'' (arg_departure_date a) = Inr dd"
      by blast
    have "truthy (arg_return_date a)"
      using r match_date_not_empty[OF md] by (simp add: truthy_def)
    with r dd rej[of current_year "''return''"] show ?thesis
      by (simp add: scrape_flights_tool_call_def)
  qed
qed

lemma str_int_2025: "str_int 2025 = ''2025''"
  by (simp add: str_int_def str_nat.simps digit_char_def)

lemma strptime_example: "strptime_ymd ''2024-07-01'' = Inr (2024, 7, 1)"
  by (simp add: strptime_ymd_def match_defs digits_val_def digit_val_def days_in_month_def)

lemma strptime_not_a_date:
  "strptime_ymd ''2023-02-29'' = Inl (ValueError ''time data does not match format'')"
  by (simp add: strptime_ymd_def match_defs digits_val_def digit_val_def days_in_month_def
      is_leap_def)

text \<open>
  An invocation in the year 2025 with the dates 2024-07-01 and 2024-07-25: the tool calls
  \<open>scrape_flights\<close> with 2025-07-01 and 2025-07-25. With the return date 2023-02-29, which
  is not a date of the calendar, the tool returns the text for the return date.
\<close>

theorem C10_past_year_rewritten_witness:
  "match_date ''2024-07-01'' \<and> strptime_ymd ''2024-07-01'' = Inr (2024, 7, 1)
   \<and> adjust_date 2025 ''departure'' ''2024-07-01'' = Inr ''2025-07-01''
   \<and> (\<exists>c. scrape_flights_tool_call id 2025 example_args = Inr c
          \<and> call_departure_date c = ''2025-07-01''
          \<and> call_return_date c = Some ''2025-07-25'')
   \<and> match_date ''2023-02-29''
   \<and> strptime_ymd ''2023-02-29'' = Inl (ValueError ''time data does not match format'')
   \<and> scrape_flights_tool_call id 2025 (example_args\<lparr>arg_return_date := Some ''2023-02-29''\<rparr>)
       = Inl ''Invalid return date: Unable to parse date.''"
proof -
  have md: "match_date ''2024-07-01''" by (simp add: match_defs)
  have y: "fst (2024 :: int, 7 :: int, 1 :: int) < 2025" by simp
  note t = C10_past_year_rewritten[of "''2024-07-01''" "(2024, 7, 1)" 2025 "''departure''"
             example_args id]
  have ret: "adjust_date 2025 ''return'' ''2024-07-25'' = Inr ''2025-07-25''"
    by (simp add: adjust_date_def strptime_ymd_def match_defs digits_val_def digit_val_def
        days_in_month_def strftime_md_def pad2_def str_int_def str_nat.simps digit_char_def)
  from t md strptime_example y
  have dep: "adjust_date 2025 ''departure'' ''2024-07-01'' = Inr ''2025-07-01''"
    by (simp add: str_int_2025)
  have "\<exists>c. scrape_flights_tool_call id 2025 example_args = Inr c
            \<and> call_return_date c = Some ''2025-07-25''"
    by (simp add: scrape_flights_tool_call_def example_args_def dep ret truthy_def
        validate_and_convert_def match_defs PlaneType_of_def SortOption_of_def bad_airlines_def
        PlaneType_members_def SortOption_members_def FlightPassengers_init_def)
  then obtain c where c: "scrape_flights_tool_call id 2025 example_args = Inr c
            \<and> call_return_date c = Some ''2025-07-25''" ..
  have "arg_departure_date example_args = ''2024-07-01''" by (simp add: example_args_def)
  with t md strptime_example y c have cd: "call_departure_date c = ''2025-07-01''"
    by (simp add: str_int_2025)
  have md2: "match_date ''2023-02-29''" by (simp add: match_defs)
  note u = C10_past_year_rewritten[of "''2023-02-29''" t 2025 "''return''"
             "example_args\<lparr>arg_return_date := Some ''2023-02-29''\<rparr>" id for t]
  have acc: "adjust_date 2025 ''departure''
               (arg_departure_date (example_args\<lparr>arg_return_date := Some ''2023-02-29''\<rparr>))
             = Inr ''2025-07-01''"
    using dep by (simp add: example_args_def)
  from u md2 strptime_not_a_date acc
  have rej: "scrape_flights_tool_call id 2025 (example_args\<lparr>arg_return_date := Some ''2023-02-29''\<rparr>)
       = Inl ''Invalid return date: Unable to parse date.''"
    by simp
  from c cd md strptime_example dep md2 strptime_not_a_date rej show ?thesis by blast
qed

text \<open>
  Claim C10 as stated fails for a date of the right form that is not a date of the calendar:
  in the year 2025 the departure date 2020-02-30 is rejected, not rewritten.
\<close>

theorem C10_counterexample:
  "match_date ''2020-02-30''
   \<and> scrape_flights_tool_call id 2025 (example_args\<lparr>arg_departure_date := ''2020-02-30''\<rparr>)
       = Inl ''Invalid departure date: Unable to parse date.''"
  by (simp add: scrape_flights_tool_call_def example_args_def adjust_date_def strptime_ymd_def
      match_defs digits_val_def digit_val_def days_in_month_def is_leap_def)

end
